theory Spec2Isabelle
  imports Complex_Main
begin

section \<open>Exceptions\<close>

text \<open>
  The exceptions a call of \<^verbatim>\<open>flair/models/language_model.py\<close> can end in.
  \<open>ConfigurationError\<close>, \<open>ShapeMismatchError\<close> and \<open>CorruptRecordError\<close> are the
  error kinds of the specification; no statement of the source raises them.
  \<open>KeyError\<close> (a missing dictionary key), \<open>IndexError\<close> (a Python list read out of
  range), \<open>ZeroDivisionError\<close>, \<open>ValueError\<close> (unpacking a size of the wrong length) and
  \<open>TypeError\<close> are raised by the Python built-ins the source uses. \<open>TorchError\<close> stands for any exception raised inside a call into the
  tensor library (its exception classes differ between releases).
\<close>

datatype error =
    ConfigurationError
  | ShapeMismatchError
  | CorruptRecordError
  | KeyError string
  | IndexError
  | ZeroDivisionError
  | ValueError
  | TypeError
  | TorchError

definition bind_err :: "error + 'a \<Rightarrow> ('a \<Rightarrow> error + 'b) \<Rightarrow> error + 'b" where
  "bind_err r f = (case r of Inl e \<Rightarrow> Inl e | Inr x \<Rightarrow> f x)"

section \<open>Tensors\<close>

text \<open>
  A tensor is its shape, its elements in row-major order, and the node of the
  computation graph that produced it (\<open>grad_fn\<close>; \<open>None\<close> for a tensor without
  history). Floating-point values are carried around as reals; no theorem below
  depends on floating-point arithmetic.
\<close>

type_synonym shape = "nat list"

record 'a tensor =
  shape :: shape
  data :: "'a list"
  grad_fn :: "string option"

definition numel :: "shape \<Rightarrow> nat" where
  "numel s = prod_list s"

text \<open>\<^verbatim>\<open>t.fill_(c)\<close>, \<^verbatim>\<open>t.zero_()\<close>, \<^verbatim>\<open>t.clone()\<close>, \<^verbatim>\<open>t.detach()\<close>.\<close>

definition tensor_fill :: "'a \<Rightarrow> 'a tensor \<Rightarrow> 'a tensor" where
  "tensor_fill c t = t\<lparr>data := replicate (numel (shape t)) c\<rparr>"

definition tensor_zero :: "real tensor \<Rightarrow> real tensor" where
  "tensor_zero t = tensor_fill 0 t"

definition clone :: "'a tensor \<Rightarrow> 'a tensor" where
  "clone t = \<lparr>shape = shape t, data = data t, grad_fn = grad_fn t\<rparr>"

definition detach :: "'a tensor \<Rightarrow> 'a tensor" where
  "detach t = t\<lparr>grad_fn := None\<rparr>"

text \<open>
  \<^verbatim>\<open>weight.new(d0, d1, d2)\<close> allocates a tensor of the given sizes and fails on a
  negative size. Its memory is uninitialised; \<open>garbage\<close> is what it happens to hold.
\<close>

definition tensor_new :: "real \<Rightarrow> int list \<Rightarrow> error + real tensor" where
  "tensor_new garbage sizes =
     (if \<exists>s \<in> set sizes. s < 0 then Inl TorchError
      else Inr \<lparr>shape = map nat sizes,
                data = replicate (numel (map nat sizes)) garbage,
                grad_fn = None\<rparr>)"

text \<open>
  \<^verbatim>\<open>torch.tensor(h.data)\<close>: \<^verbatim>\<open>h.data\<close> is \<open>h\<close> without its history, and
  \<^verbatim>\<open>torch.tensor\<close> copies the elements into a new tensor without history.
\<close>

definition torch_tensor :: "'a tensor \<Rightarrow> 'a tensor" where
  "torch_tensor t = \<lparr>shape = shape t, data = data t, grad_fn = None\<rparr>"

section \<open>The random generator of the tensor library\<close>

text \<open>
  The library's generator is a state: \<open>variate g d i\<close> is the \<open>i\<close>-th number the
  generator, as seeded, produces for a draw from distribution \<open>d\<close>, and \<open>pos\<close> counts
  the numbers drawn so far. Which numbers a seed yields is the library's business;
  that a draw from \<open>Uniform lo hi\<close> is uniformly distributed on the interval is its
  contract.
\<close>

datatype dist = Uniform real real | Normal real real

record generator =
  variate :: "dist \<Rightarrow> nat \<Rightarrow> real"
  pos :: nat

definition sample :: "dist \<Rightarrow> nat \<Rightarrow> generator \<Rightarrow> real list \<times> generator" where
  "sample d n g = (map (variate g d) [pos g ..< pos g + n], g\<lparr>pos := pos g + n\<rparr>)"

text \<open>\<^verbatim>\<open>t.uniform_(lo, hi)\<close> overwrites every element with a fresh draw.\<close>

definition tensor_uniform :: "real \<Rightarrow> real \<Rightarrow> real tensor \<Rightarrow> generator \<Rightarrow> real tensor \<times> generator" where
  "tensor_uniform lo hi t g =
     (case sample (Uniform lo hi) (numel (shape t)) g of (xs, g') \<Rightarrow> (t\<lparr>data := xs\<rparr>, g'))"

definition filled :: "dist \<Rightarrow> shape \<Rightarrow> generator \<Rightarrow> real tensor \<times> generator" where
  "filled d s g =
     (case sample d (numel s) g of (xs, g') \<Rightarrow> (\<lparr>shape = s, data = xs, grad_fn = None\<rparr>, g'))"

section \<open>Layers of the tensor library\<close>

text \<open>
  The layers are the library's, not the repository's; they are modelled by their
  documented contract: the parameters a constructor allocates, how it initialises
  them, which arguments it rejects, and the shape of what the layer returns.
\<close>

datatype pname =
    EncoderWeight
  | RnnWeightIh nat | RnnWeightHh nat | RnnBiasIh nat | RnnBiasHh nat
  | ProjWeight | ProjBias
  | DecoderWeight | DecoderBias
  | OtherName string

record embedding =
  num_embeddings :: nat
  embedding_dim :: nat
  emb_weight :: "real tensor"

record linear =
  in_features :: nat
  out_features :: nat
  lin_weight :: "real tensor"
  lin_bias :: "real tensor"

record lstm =
  input_size :: nat
  lstm_hidden_size :: nat
  num_layers :: nat
  lstm_dropout :: real
  lstm_params :: "(pname \<times> real tensor) list"

text \<open>\<^verbatim>\<open>nn.Dropout(p)\<close> rejects a probability outside \<open>[0, 1]\<close>.\<close>

definition nn_Dropout :: "real \<Rightarrow> error + real" where
  "nn_Dropout p = (if p < 0 \<or> 1 < p then Inl TorchError else Inr p)"

text \<open>\<^verbatim>\<open>nn.Embedding(n, d)\<close>: an \<open>n \<times> d\<close> table, initialised from \<open>N(0, 1)\<close>.\<close>

definition nn_Embedding :: "nat \<Rightarrow> int \<Rightarrow> generator \<Rightarrow> error + (embedding \<times> generator)" where
  "nn_Embedding n d g =
     (if d < 0 then Inl TorchError
      else case filled (Normal 0 1) [n, nat d] g of (w, g') \<Rightarrow>
        Inr (\<lparr>num_embeddings = n, embedding_dim = nat d, emb_weight = w\<rparr>, g'))"

text \<open>
  \<^verbatim>\<open>nn.Linear(i, o)\<close>: weight \<open>o \<times> i\<close> and bias \<open>o\<close>, both initialised from
  \<open>U(-1/sqrt i, 1/sqrt i)\<close>.
\<close>

definition linear_bound :: "nat \<Rightarrow> real" where
  "linear_bound i = (if 0 < i then 1 / sqrt (real i) else 0)"

definition nn_Linear :: "int \<Rightarrow> int \<Rightarrow> generator \<Rightarrow> error + (linear \<times> generator)" where
  "nn_Linear i o' g =
     (if i < 0 \<or> o' < 0 then Inl TorchError
      else case filled (Uniform (- linear_bound (nat i)) (linear_bound (nat i))) [nat o', nat i] g of
        (w, g1) \<Rightarrow>
          (case filled (Uniform (- linear_bound (nat i)) (linear_bound (nat i))) [nat o'] g1 of
            (b, g2) \<Rightarrow>
              Inr (\<lparr>in_features = nat i, out_features = nat o', lin_weight = w, lin_bias = b\<rparr>, g2)))"

text \<open>
  \<^verbatim>\<open>nn.LSTM(input_size, hidden_size, num_layers, dropout)\<close>: per layer \<open>k\<close> the
  parameters \<open>weight_ih_lk\<close> (\<open>4h \<times> input\<close>, the input of a later layer being the
  hidden width), \<open>weight_hh_lk\<close> (\<open>4h \<times> h\<close>), \<open>bias_ih_lk\<close> and \<open>bias_hh_lk\<close> (\<open>4h\<close>),
  all initialised from \<open>U(-1/sqrt h, 1/sqrt h)\<close>. The constructor rejects a dropout
  outside \<open>[0, 1]\<close> and an input size, a hidden size or a layer count that is not
  greater than zero.
\<close>

definition lstm_layer_shapes :: "nat \<Rightarrow> nat \<Rightarrow> nat \<Rightarrow> (pname \<times> shape) list" where
  "lstm_layer_shapes i h k =
     [(RnnWeightIh k, [4 * h, if k = 0 then i else h]),
      (RnnWeightHh k, [4 * h, h]),
      (RnnBiasIh k, [4 * h]),
      (RnnBiasHh k, [4 * h])]"

definition lstm_shapes :: "nat \<Rightarrow> nat \<Rightarrow> nat \<Rightarrow> (pname \<times> shape) list" where
  "lstm_shapes i h n = concat (map (lstm_layer_shapes i h) [0 ..< n])"

fun init_all :: "dist \<Rightarrow> (pname \<times> shape) list \<Rightarrow> generator \<Rightarrow> (pname \<times> real tensor) list \<times> generator" where
  "init_all d [] g = ([], g)"
| "init_all d ((k, s) # ps) g =
     (case filled d s g of (t, g1) \<Rightarrow>
        (case init_all d ps g1 of (ts, g2) \<Rightarrow> ((k, t) # ts, g2)))"

definition nn_LSTM :: "int \<Rightarrow> int \<Rightarrow> int \<Rightarrow> real \<Rightarrow> generator \<Rightarrow> error + (lstm \<times> generator)" where
  "nn_LSTM i h n p g =
     (if p < 0 \<or> 1 < p \<or> i \<le> 0 \<or> h \<le> 0 \<or> n \<le> 0 then Inl TorchError
      else case init_all (Uniform (- (1 / sqrt (real_of_int h))) (1 / sqrt (real_of_int h)))
                  (lstm_shapes (nat i) (nat h) (nat n)) g of
        (ps, g') \<Rightarrow>
          Inr (\<lparr>input_size = nat i, lstm_hidden_size = nat h, num_layers = nat n,
                lstm_dropout = p, lstm_params = ps\<rparr>, g'))"

section \<open>Hidden states\<close>

text \<open>
  What \<^verbatim>\<open>repackage_hidden\<close> is called on: a tensor, or a tuple whose components are
  again such values.
\<close>

datatype 'a hidden = Leaf "'a tensor" | Node "'a hidden list"

fun leaves :: "'a hidden \<Rightarrow> 'a tensor list" where
  "leaves (Leaf t) = [t]"
| "leaves (Node hs) = concat (map leaves hs)"

text \<open>The nesting of a hidden state: the state with every tensor forgotten.\<close>

datatype nesting = Tensor | Tuple "nesting list"

fun nesting_of :: "'a hidden \<Rightarrow> nesting" where
  "nesting_of (Leaf t) = Tensor"
| "nesting_of (Node hs) = Tuple (map nesting_of hs)"

section \<open>The language model\<close>

datatype device = CPU | CUDA

text \<open>
  \<^verbatim>\<open>flair.data.Dictionary\<close> is a collaborator outside this file: \<open>idx2item\<close> is its
  list of symbols, its length is the list's length. The symbols are stored as
  UTF-8 bytes; a symbol here is the string they decode to.
\<close>

record dictionary =
  idx2item :: "string list"

definition len :: "dictionary \<Rightarrow> nat" where
  "len d = length (idx2item d)"

record language_model =
  dictionary :: dictionary
  is_forward_lm :: bool
  dropout :: real
  hidden_size :: int
  embedding_size :: int
  nlayers :: int
  drop :: real
  encoder :: embedding
  rnn :: lstm
  hidden :: "real hidden option"
  nout :: "int option"
  proj :: "linear option"
  decoder :: linear
  training :: bool
  device :: device

text \<open>
  \<^verbatim>\<open>initialize(matrix)\<close>: the size is unpacked into two numbers, and the float
  division raises on a zero divisor.
\<close>

definition initialize :: "real tensor \<Rightarrow> generator \<Rightarrow> error + (real tensor \<times> generator)" where
  "initialize matrix g =
     (case shape matrix of
        [in_, out_] \<Rightarrow>
          (if in_ + out_ = 0 then Inl ZeroDivisionError
           else let stdv = sqrt (3 / real (in_ + out_))
                in Inr (tensor_uniform (- stdv) stdv matrix g))
      | _ \<Rightarrow> Inl ValueError)"

text \<open>\<^verbatim>\<open>init_weights\<close>, on the two layers it writes.\<close>

definition init_weights :: "embedding \<Rightarrow> linear \<Rightarrow> generator \<Rightarrow> embedding \<times> linear \<times> generator" where
  "init_weights enc dec g =
     (let initrange = 1 / 10 in
      case tensor_uniform (- initrange) initrange (emb_weight enc) g of (ew, g1) \<Rightarrow>
        (let db = tensor_fill 0 (lin_bias dec) in
         case tensor_uniform (- initrange) initrange (lin_weight dec) g1 of (dw, g2) \<Rightarrow>
           (enc\<lparr>emb_weight := ew\<rparr>, dec\<lparr>lin_weight := dw, lin_bias := db\<rparr>, g2)))"

text \<open>
  The two branches of \<^verbatim>\<open>__init__\<close>. With one layer the recurrent core is built
  without a dropout argument (the library's default is 0). With \<^verbatim>\<open>nout\<close> given, a
  projection is built, its weight goes through \<^verbatim>\<open>initialize\<close>, and the decoder
  reads the projection; without, there is no projection and the decoder reads the
  hidden state.
\<close>

definition make_rnn :: "int \<Rightarrow> int \<Rightarrow> int \<Rightarrow> real \<Rightarrow> generator \<Rightarrow> error + (lstm \<times> generator)" where
  "make_rnn embedding_size' hidden_size' nlayers' dropout' g =
     (if nlayers' = 1 then nn_LSTM embedding_size' hidden_size' nlayers' 0 g
      else nn_LSTM embedding_size' hidden_size' nlayers' dropout' g)"

definition make_proj_decoder ::
  "int \<Rightarrow> int option \<Rightarrow> nat \<Rightarrow> generator \<Rightarrow> error + (linear option \<times> linear \<times> generator)" where
  "make_proj_decoder hidden_size' nout' n g =
     (case nout' of
        Some k \<Rightarrow>
          bind_err (nn_Linear hidden_size' k g) (\<lambda>pg.
          bind_err (initialize (lin_weight (fst pg)) (snd pg)) (\<lambda>wg.
          bind_err (nn_Linear k (int n) (snd wg)) (\<lambda>dg.
          Inr (Some ((fst pg)\<lparr>lin_weight := fst wg\<rparr>), fst dg, snd dg))))
      | None \<Rightarrow>
          bind_err (nn_Linear hidden_size' (int n) g) (\<lambda>dg.
          Inr (None, fst dg, snd dg)))"

text \<open>
  \<^verbatim>\<open>LanguageModel.__init__\<close>. The last two arguments are the process-wide device
  \<^verbatim>\<open>flair.device\<close> and the library's generator.
\<close>

definition LanguageModel ::
  "dictionary \<Rightarrow> bool \<Rightarrow> int \<Rightarrow> int \<Rightarrow> int \<Rightarrow> int option \<Rightarrow> real \<Rightarrow> device \<Rightarrow> generator
     \<Rightarrow> error + (language_model \<times> generator)" where
  "LanguageModel dictionary' is_forward_lm' hidden_size' nlayers' embedding_size' nout' dropout' dev g =
     bind_err (nn_Dropout dropout') (\<lambda>drop'.
     bind_err (nn_Embedding (len dictionary') embedding_size' g) (\<lambda>eg.
     bind_err (make_rnn embedding_size' hidden_size' nlayers' dropout' (snd eg)) (\<lambda>rg.
     bind_err (make_proj_decoder hidden_size' nout' (len dictionary') (snd rg)) (\<lambda>pdg.
     let edg = init_weights (fst eg) (fst (snd pdg)) (snd (snd pdg)) in
       Inr (\<lparr>dictionary = dictionary', is_forward_lm = is_forward_lm', dropout = dropout',
             hidden_size = hidden_size', embedding_size = embedding_size', nlayers = nlayers',
             drop = drop', encoder = fst edg, rnn = fst rg, hidden = None, nout = nout',
             proj = fst pdg, decoder = fst (snd edg), training = True, device = dev\<rparr>,
            snd (snd edg))))))"

text \<open>\<^verbatim>\<open>set_hidden\<close>.\<close>

definition set_hidden :: "language_model \<Rightarrow> real hidden option \<Rightarrow> language_model" where
  "set_hidden self h = self\<lparr>hidden := h\<rparr>"

text \<open>
  \<^verbatim>\<open>init_hidden(bsz)\<close>: twice
  \<^verbatim>\<open>weight.new(self.nlayers, bsz, self.hidden_size).zero_().clone().detach()\<close>.
\<close>

definition init_hidden :: "language_model \<Rightarrow> real \<Rightarrow> int \<Rightarrow> error + (real tensor \<times> real tensor)" where
  "init_hidden self garbage bsz =
     bind_err (tensor_new garbage [nlayers self, bsz, hidden_size self]) (\<lambda>a.
     bind_err (tensor_new garbage [nlayers self, bsz, hidden_size self]) (\<lambda>b.
     Inr (detach (clone (tensor_zero a)), detach (clone (tensor_zero b)))))"

text \<open>\<^verbatim>\<open>repackage_hidden\<close>: a tensor is copied without history, a tuple is mapped over.\<close>

fun repackage_hidden :: "'a hidden \<Rightarrow> 'a hidden" where
  "repackage_hidden (Leaf h) = Leaf (torch_tensor h)"
| "repackage_hidden (Node h) = Node (map repackage_hidden h)"

text \<open>The pair \<^verbatim>\<open>init_hidden\<close> returns, as the tuple of two tensors it is.\<close>

definition tuple2 :: "'a tensor \<times> 'a tensor \<Rightarrow> 'a hidden" where
  "tuple2 p = Node [Leaf (fst p), Leaf (snd p)]"

section \<open>The forward pass, on shapes\<close>

text \<open>
  What a layer computes is floating-point arithmetic of the tensor library. The
  forward pass is therefore embedded on what the source itself handles: the index
  tensor with its elements, and of every floating-point tensor its shape.
\<close>

text \<open>
  Calling an \<^verbatim>\<open>nn.Embedding\<close>: every index must name a row of the table; the result
  has the shape of the index tensor with the embedding width appended.
\<close>

definition embedding_call :: "embedding \<Rightarrow> int tensor \<Rightarrow> error + shape" where
  "embedding_call e input =
     (if \<forall>i \<in> set (data input). 0 \<le> i \<and> i < int (num_embeddings e)
      then Inr (shape input @ [embedding_dim e]) else Inl TorchError)"

text \<open>\<^verbatim>\<open>nn.Dropout\<close> keeps the shape.\<close>

definition dropout_call :: "real \<Rightarrow> shape \<Rightarrow> shape" where
  "dropout_call p x = x"

text \<open>
  Calling an \<^verbatim>\<open>nn.LSTM\<close> on a sequence-major batch \<open>(L, B, input_size)\<close> and a pair
  of states, each \<open>(num_layers, B, hidden_size)\<close>: the output is
  \<open>(L, B, hidden_size)\<close> and the new states have the shapes of the old ones. The
  library rejects a sequence of length zero.
\<close>

definition lstm_call :: "lstm \<Rightarrow> shape \<Rightarrow> shape \<times> shape \<Rightarrow> error + (shape \<times> (shape \<times> shape))" where
  "lstm_call r x hc =
     (case x of
        [l, b, i] \<Rightarrow>
          (if 0 < l \<and> i = input_size r
              \<and> fst hc = [num_layers r, b, lstm_hidden_size r]
              \<and> snd hc = [num_layers r, b, lstm_hidden_size r]
           then Inr ([l, b, lstm_hidden_size r], hc) else Inl TorchError)
      | _ \<Rightarrow> Inl TorchError)"

text \<open>Calling an \<^verbatim>\<open>nn.Linear\<close> maps the last dimension.\<close>

definition linear_call :: "linear \<Rightarrow> shape \<Rightarrow> error + shape" where
  "linear_call l x =
     (if x \<noteq> [] \<and> last x = in_features l then Inr (butlast x @ [out_features l])
      else Inl TorchError)"

text \<open>\<^verbatim>\<open>t.size(i)\<close> and \<^verbatim>\<open>t.view(dims)\<close>.\<close>

definition size_at :: "shape \<Rightarrow> nat \<Rightarrow> error + nat" where
  "size_at x i = (if i < length x then Inr (x ! i) else Inl TorchError)"

definition view :: "shape \<Rightarrow> shape \<Rightarrow> error + shape" where
  "view x dims = (if numel x = numel dims then Inr dims else Inl TorchError)"

text \<open>
  \<^verbatim>\<open>forward(input, hidden)\<close>; the result is the shapes of
  \<^verbatim>\<open>(decoded.view(...), output, hidden)\<close>.
\<close>

definition forward ::
  "language_model \<Rightarrow> int tensor \<Rightarrow> shape \<times> shape \<Rightarrow> error + (shape \<times> shape \<times> (shape \<times> shape))" where
  "forward self input hidden0 =
     bind_err (embedding_call (encoder self) input) (\<lambda>encoded.
     let emb = dropout_call (drop self) encoded in
     bind_err (lstm_call (rnn self) emb hidden0) (\<lambda>(output0, hidden1).
     bind_err (case proj self of Some p \<Rightarrow> linear_call p output0 | None \<Rightarrow> Inr output0) (\<lambda>output1.
     let output = dropout_call (drop self) output1 in
     bind_err (size_at output 0) (\<lambda>s0.
     bind_err (size_at output 1) (\<lambda>s1.
     bind_err (size_at output 2) (\<lambda>s2.
     bind_err (view output [s0 * s1, s2]) (\<lambda>flat.
     bind_err (linear_call (decoder self) flat) (\<lambda>decoded.
     bind_err (size_at decoded 1) (\<lambda>d1.
     bind_err (view decoded [s0, s1, d1]) (\<lambda>logits.
     Inr (logits, output, hidden1)))))))))))"

section \<open>Text generation\<close>

text \<open>\<^verbatim>\<open>t.squeeze()\<close> removes every dimension of size one.\<close>

definition squeeze :: "shape \<Rightarrow> shape" where
  "squeeze s = filter (\<lambda>d. d \<noteq> 1) s"

text \<open>
  \<^verbatim>\<open>torch.multinomial(word_weights, 1)[0]\<close>, as far as \<^verbatim>\<open>input.data.fill_\<close> can take
  it. The library samples from a vector or from the rows of a matrix of weights and
  rejects any other rank; from a vector of \<open>k > 0\<close> weights it returns one index,
  \<open>pick\<close>, the generator's choice. (For a matrix the element at \<open>[0]\<close> is a row of
  indices, which \<^verbatim>\<open>fill_\<close> rejects.)
\<close>

definition multinomial1 :: "shape \<Rightarrow> nat \<Rightarrow> error + nat" where
  "multinomial1 word_weights pick =
     (case word_weights of
        [k] \<Rightarrow> (if 0 < k then Inr pick else Inl TorchError)
      | _ \<Rightarrow> Inl TorchError)"

text \<open>Reading a Python list at a non-negative index.\<close>

definition list_getitem :: "'a list \<Rightarrow> nat \<Rightarrow> error + 'a" where
  "list_getitem xs i = (if i < length xs then Inr (xs ! i) else Inl IndexError)"

text \<open>
  The loop of \<^verbatim>\<open>generate_text\<close>: \<open>i\<close> counts the iterations done, the second number
  those left; \<open>pick i\<close> is what the sampler chooses in iteration \<open>i\<close>.
\<close>

fun generate_loop ::
  "language_model \<Rightarrow> (nat \<Rightarrow> nat) \<Rightarrow> nat \<Rightarrow> nat \<Rightarrow> int \<Rightarrow> shape \<times> shape \<Rightarrow> string list
     \<Rightarrow> error + string list" where
  "generate_loop self pick i 0 input hidden0 characters = Inr characters"
| "generate_loop self pick i (Suc k) input hidden0 characters =
     bind_err (forward self \<lparr>shape = [1, 1], data = [input], grad_fn = None\<rparr> hidden0)
       (\<lambda>(prediction, rnn_output, hidden1).
     bind_err (multinomial1 (squeeze prediction) (pick i)) (\<lambda>word_idx.
     bind_err (list_getitem (idx2item (dictionary self)) word_idx) (\<lambda>word.
     generate_loop self pick (Suc i) k (int word_idx) hidden1 (characters @ [word]))))"

text \<open>
  \<^verbatim>\<open>generate_text(number_of_characters)\<close>. \<open>u\<close> is the number \<^verbatim>\<open>torch.rand(1, 1)\<close>
  draws; \<^verbatim>\<open>range\<close> of a negative count is empty.
\<close>

definition generate_text ::
  "language_model \<Rightarrow> real \<Rightarrow> real \<Rightarrow> (nat \<Rightarrow> nat) \<Rightarrow> int \<Rightarrow> error + string" where
  "generate_text self garbage u pick number_of_characters =
     bind_err (init_hidden self garbage 1) (\<lambda>hidden0.
     let input = \<lfloor>u * real (length (idx2item (dictionary self)))\<rfloor> in
     bind_err (generate_loop self pick 0 (nat number_of_characters) input
                 (shape (fst hidden0), shape (snd hidden0)) []) (\<lambda>characters.
     Inr (concat characters)))"

section \<open>Persistence\<close>

text \<open>
  The values a pickled record holds. \<open>PObject\<close> is any other pickled object, such
  as what \<^verbatim>\<open>optimizer.state_dict()\<close> returns; \<open>PNone\<close> is Python's \<^verbatim>\<open>None\<close>.
\<close>

datatype pyval =
    PNone
  | PBool bool
  | PInt int
  | PFloat real
  | PDictionary dictionary
  | PStateDict "(pname \<times> real tensor) list"
  | PObject string

type_synonym pydict = "string \<rightharpoonup> pyval"

text \<open>
  What the methods read and write besides the model: the files, the generator of
  the tensor library and the process-wide device \<^verbatim>\<open>flair.device\<close>.
\<close>

record world =
  files :: "string \<rightharpoonup> pydict"
  default_generator :: generator
  flair_device :: device

text \<open>\<^verbatim>\<open>self.state_dict()\<close>: the parameters by name, in registration order.\<close>

definition state_dict :: "language_model \<Rightarrow> (pname \<times> real tensor) list" where
  "state_dict self =
     map (\<lambda>(k, t). (k, detach t))
       ([(EncoderWeight, emb_weight (encoder self))]
        @ lstm_params (rnn self)
        @ (case proj self of
             Some p \<Rightarrow> [(ProjWeight, lin_weight p), (ProjBias, lin_bias p)]
           | None \<Rightarrow> [])
        @ [(DecoderWeight, lin_weight (decoder self)), (DecoderBias, lin_bias (decoder self))])"

definition nout_value :: "int option \<Rightarrow> pyval" where
  "nout_value n = (case n of None \<Rightarrow> PNone | Some k \<Rightarrow> PInt k)"

text \<open>
  \<^verbatim>\<open>save_checkpoint\<close> and \<^verbatim>\<open>save\<close>. A method may assign to \<^verbatim>\<open>self\<close>, so both
  return the model next to the world. \<open>optimizer\<close> is the value of
  \<^verbatim>\<open>optimizer.state_dict()\<close>.
\<close>

definition save_checkpoint ::
  "language_model \<times> world \<Rightarrow> string \<Rightarrow> pyval \<Rightarrow> int \<Rightarrow> int \<Rightarrow> real \<Rightarrow> language_model \<times> world" where
  "save_checkpoint sw file optimizer epoch split loss =
     (case sw of (self, w) \<Rightarrow>
        let model_state = map_of
              [(''state_dict'', PStateDict (state_dict self)),
               (''dictionary'', PDictionary (dictionary self)),
               (''is_forward_lm'', PBool (is_forward_lm self)),
               (''hidden_size'', PInt (hidden_size self)),
               (''nlayers'', PInt (nlayers self)),
               (''embedding_size'', PInt (embedding_size self)),
               (''nout'', nout_value (nout self)),
               (''dropout'', PFloat (dropout self)),
               (''optimizer_state_dict'', optimizer),
               (''epoch'', PInt epoch),
               (''split'', PInt split),
               (''loss'', PFloat loss)]
        in (self, w\<lparr>files := (files w)(file \<mapsto> model_state)\<rparr>))"

definition save :: "language_model \<times> world \<Rightarrow> string \<Rightarrow> language_model \<times> world" where
  "save sw file =
     (case sw of (self, w) \<Rightarrow>
        let model_state = map_of
              [(''state_dict'', PStateDict (state_dict self)),
               (''dictionary'', PDictionary (dictionary self)),
               (''is_forward_lm'', PBool (is_forward_lm self)),
               (''hidden_size'', PInt (hidden_size self)),
               (''nlayers'', PInt (nlayers self)),
               (''embedding_size'', PInt (embedding_size self)),
               (''nout'', nout_value (nout self)),
               (''dropout'', PFloat (dropout self))]
        in (self, w\<lparr>files := (files w)(file \<mapsto> model_state)\<rparr>))"

text \<open>\<^verbatim>\<open>torch.load\<close> fails on a file that is not there.\<close>

definition torch_load :: "world \<Rightarrow> string \<Rightarrow> error + pydict" where
  "torch_load w file = (case files w file of None \<Rightarrow> Inl TorchError | Some state \<Rightarrow> Inr state)"

text \<open>\<^verbatim>\<open>state[k]\<close> and \<^verbatim>\<open>state[k] if k in state else None\<close>.\<close>

definition getitem :: "pydict \<Rightarrow> string \<Rightarrow> error + pyval" where
  "getitem state k = (case state k of None \<Rightarrow> Inl (KeyError k) | Some v \<Rightarrow> Inr v)"

definition get_or_none :: "pydict \<Rightarrow> string \<Rightarrow> pyval" where
  "get_or_none state k = (case state k of None \<Rightarrow> PNone | Some v \<Rightarrow> v)"

text \<open>
  The constructor called on values read from a record. The model's fields are
  typed; a value of another type than the field's ends in \<open>TypeError\<close>.
\<close>

definition LanguageModel_of ::
  "pyval \<Rightarrow> pyval \<Rightarrow> pyval \<Rightarrow> pyval \<Rightarrow> pyval \<Rightarrow> pyval \<Rightarrow> pyval \<Rightarrow> device \<Rightarrow> generator
     \<Rightarrow> error + (language_model \<times> generator)" where
  "LanguageModel_of d f h n e no p dev g =
     (case (d, f, h, n, e, p) of
        (PDictionary d', PBool f', PInt h', PInt n', PInt e', PFloat p') \<Rightarrow>
          (case no of
             PNone \<Rightarrow> LanguageModel d' f' h' n' e' None p' dev g
           | PInt k \<Rightarrow> LanguageModel d' f' h' n' e' (Some k) p' dev g
           | _ \<Rightarrow> Inl TypeError)
      | _ \<Rightarrow> Inl TypeError)"

text \<open>
  \<^verbatim>\<open>model.load_state_dict(sd)\<close> is strict: the names and shapes in \<open>sd\<close> must be
  those of the model's own parameters; then every parameter takes the elements of
  its namesake.
\<close>

definition name_shape :: "pname \<times> real tensor \<Rightarrow> pname \<times> shape" where
  "name_shape kt = (fst kt, shape (snd kt))"

definition copy_from :: "(pname \<rightharpoonup> real tensor) \<Rightarrow> pname \<Rightarrow> real tensor \<Rightarrow> real tensor" where
  "copy_from f k t = (case f k of Some s \<Rightarrow> t\<lparr>data := data s\<rparr> | None \<Rightarrow> t)"

definition assign_params :: "language_model \<Rightarrow> (pname \<rightharpoonup> real tensor) \<Rightarrow> language_model" where
  "assign_params self f =
     self\<lparr>encoder := (encoder self)\<lparr>emb_weight := copy_from f EncoderWeight (emb_weight (encoder self))\<rparr>,
          rnn := (rnn self)\<lparr>lstm_params := map (\<lambda>(k, t). (k, copy_from f k t)) (lstm_params (rnn self))\<rparr>,
          proj := map_option (\<lambda>p. p\<lparr>lin_weight := copy_from f ProjWeight (lin_weight p),
                                     lin_bias := copy_from f ProjBias (lin_bias p)\<rparr>) (proj self),
          decoder := (decoder self)\<lparr>lin_weight := copy_from f DecoderWeight (lin_weight (decoder self)),
                                    lin_bias := copy_from f DecoderBias (lin_bias (decoder self))\<rparr>\<rparr>"

definition load_state_dict :: "language_model \<Rightarrow> pyval \<Rightarrow> error + language_model" where
  "load_state_dict self v =
     (case v of
        PStateDict sd \<Rightarrow>
          (if set (map name_shape sd) = set (map name_shape (state_dict self))
           then Inr (assign_params self (map_of sd)) else Inl TorchError)
      | _ \<Rightarrow> Inl TypeError)"

text \<open>
  The part \<^verbatim>\<open>load_language_model\<close> and \<^verbatim>\<open>load_checkpoint\<close> share: the seven
  \<^verbatim>\<open>state[...]\<close> arguments are evaluated in order, the constructor runs, then
  \<^verbatim>\<open>state['state_dict']\<close> is read and loaded, \<^verbatim>\<open>eval()\<close> and \<^verbatim>\<open>to(flair.device)\<close>.
\<close>

definition rebuild :: "world \<Rightarrow> pydict \<Rightarrow> error + (language_model \<times> world)" where
  "rebuild w state =
     bind_err (getitem state ''dictionary'') (\<lambda>d.
     bind_err (getitem state ''is_forward_lm'') (\<lambda>f.
     bind_err (getitem state ''hidden_size'') (\<lambda>h.
     bind_err (getitem state ''nlayers'') (\<lambda>n.
     bind_err (getitem state ''embedding_size'') (\<lambda>e.
     bind_err (getitem state ''nout'') (\<lambda>no.
     bind_err (getitem state ''dropout'') (\<lambda>p.
     bind_err (LanguageModel_of d f h n e no p (flair_device w) (default_generator w)) (\<lambda>(model0, g).
     bind_err (getitem state ''state_dict'') (\<lambda>sd.
     bind_err (load_state_dict model0 sd) (\<lambda>model1.
     Inr (model1\<lparr>training := False, device := flair_device w\<rparr>,
          w\<lparr>default_generator := g\<rparr>)))))))))))"

definition load_language_model :: "world \<Rightarrow> string \<Rightarrow> error + (language_model \<times> world)" where
  "load_language_model w model_file =
     bind_err (torch_load w model_file) (\<lambda>state. rebuild w state)"

record checkpoint =
  model :: language_model
  epoch :: pyval
  split :: pyval
  loss :: pyval
  optimizer_state_dict :: pyval

definition load_checkpoint :: "world \<Rightarrow> string \<Rightarrow> error + (checkpoint \<times> world)" where
  "load_checkpoint w model_file =
     bind_err (torch_load w model_file) (\<lambda>state.
     let epoch' = get_or_none state ''epoch'';
         split' = get_or_none state ''split'';
         loss' = get_or_none state ''loss'';
         optimizer_state_dict' = get_or_none state ''optimizer_state_dict''
     in bind_err (rebuild w state) (\<lambda>(model', w').
        Inr (\<lparr>model = model', epoch = epoch', split = split', loss = loss',
              optimizer_state_dict = optimizer_state_dict'\<rparr>, w')))"

section \<open>Configurations and examples\<close>

text \<open>
  The configurations the specification calls valid: positive widths, at least one
  layer, a positive projection width where one is configured, and a dropout rate
  that is a probability.
\<close>

definition valid_configuration :: "int \<Rightarrow> int \<Rightarrow> int \<Rightarrow> int option \<Rightarrow> real \<Rightarrow> bool" where
  "valid_configuration h n e no p =
     (0 < h \<and> 1 \<le> n \<and> 0 < e \<and> (case no of None \<Rightarrow> True | Some k \<Rightarrow> 0 < k) \<and> 0 \<le> p \<and> p \<le> 1)"

text \<open>The width of what the decoder reads.\<close>

definition decoder_in :: "int \<Rightarrow> int option \<Rightarrow> nat" where
  "decoder_in h no = (case no of Some k \<Rightarrow> nat k | None \<Rightarrow> nat h)"

text \<open>The model and the generator state a successful constructor call returns.\<close>

definition constructed :: "error + (language_model \<times> generator) \<Rightarrow> language_model" where
  "constructed r = fst (projr r)"

definition generator_after :: "error + (language_model \<times> generator) \<Rightarrow> generator" where
  "generator_after r = snd (projr r)"

text \<open>
  Small examples: a generator whose every draw is the centre of its distribution,
  dictionaries of three, one and no symbols, and the models built over them with
  hidden width 2, one layer and embedding width 3.
\<close>

definition demo_generator :: generator where
  "demo_generator =
     \<lparr>variate = (\<lambda>d i. case d of Uniform lo hi \<Rightarrow> (lo + hi) / 2 | Normal mu sigma \<Rightarrow> mu), pos = 0\<rparr>"

definition demo_dictionary :: dictionary where
  "demo_dictionary = \<lparr>idx2item = [''a'', ''b'', ''c'']\<rparr>"

definition single_dictionary :: dictionary where
  "single_dictionary = \<lparr>idx2item = [''<unk>'']\<rparr>"

definition empty_dictionary :: dictionary where
  "empty_dictionary = \<lparr>idx2item = []\<rparr>"

definition demo_model :: language_model where
  "demo_model = constructed (LanguageModel demo_dictionary True 2 1 3 None (1 / 2) CPU demo_generator)"

definition projected_model :: language_model where
  "projected_model =
     constructed (LanguageModel demo_dictionary True 2 1 3 (Some 1) (1 / 2) CPU demo_generator)"

definition single_model :: language_model where
  "single_model = constructed (LanguageModel single_dictionary True 2 1 3 None (1 / 2) CPU demo_generator)"

definition empty_model :: language_model where
  "empty_model = constructed (LanguageModel empty_dictionary True 2 1 3 None (1 / 2) CPU demo_generator)"


text \<open>The configuration fields of a persisted record, in the order the loaders read them.\<close>

definition config_keys :: "string list" where
  "config_keys =
     [''dictionary'', ''is_forward_lm'', ''hidden_size'', ''nlayers'', ''embedding_size'',
      ''nout'', ''dropout'']"

text \<open>The parameters of a model by name and shape, as its configuration fixes them.\<close>

definition arch_shapes :: "nat \<Rightarrow> int \<Rightarrow> int \<Rightarrow> int \<Rightarrow> int option \<Rightarrow> (pname \<times> shape) list" where
  "arch_shapes N h n e no =
     [(EncoderWeight, [N, nat e])]
     @ lstm_shapes (nat e) (nat h) (nat n)
     @ (case no of Some k \<Rightarrow> [(ProjWeight, [nat k, nat h]), (ProjBias, [nat k])] | None \<Rightarrow> [])
     @ [(DecoderWeight, [N, decoder_in h no]), (DecoderBias, [N])]"

text \<open>
  The constructor call of the loaders, on the configuration fields of a record
  (an absent field reads as \<open>PNone\<close> here; the loaders fail on it before the call).
\<close>

definition construct_from :: "world \<Rightarrow> pydict \<Rightarrow> error + (language_model \<times> generator)" where
  "construct_from w state =
     LanguageModel_of (get_or_none state ''dictionary'') (get_or_none state ''is_forward_lm'')
       (get_or_none state ''hidden_size'') (get_or_none state ''nlayers'')
       (get_or_none state ''embedding_size'') (get_or_none state ''nout'')
       (get_or_none state ''dropout'') (flair_device w) (default_generator w)"

text \<open>A world without files, and a record that lacks the field \<^verbatim>\<open>nout\<close>.\<close>

definition demo_world :: world where
  "demo_world = \<lparr>files = Map.empty, default_generator = demo_generator, flair_device = CPU\<rparr>"

definition record_without_nout :: pydict where
  "record_without_nout = map_of
     [(''state_dict'', PStateDict (state_dict demo_model)),
      (''dictionary'', PDictionary demo_dictionary),
      (''is_forward_lm'', PBool True),
      (''hidden_size'', PInt 2),
      (''nlayers'', PInt 1),
      (''embedding_size'', PInt 3),
      (''dropout'', PFloat (1 / 2))]"

section \<open>The constructor\<close>

lemma bind_err_Inr: "bind_err r f = Inr y \<longleftrightarrow> (\<exists>x. r = Inr x \<and> f x = Inr y)"
  by (cases r) (simp_all add: bind_err_def)

lemma bind_err_InrE:
  assumes "bind_err r f = Inr y"
  obtains x where "r = Inr x" and "f x = Inr y"
  using assms by (auto simp: bind_err_Inr)

lemma nn_Embedding_Inr:
  "nn_Embedding n d g = Inr (enc, g') \<Longrightarrow>
     0 \<le> d \<and> num_embeddings enc = n \<and> embedding_dim enc = nat d \<and> shape (emb_weight enc) = [n, nat d]"
  by (auto simp: nn_Embedding_def filled_def sample_def split: if_splits prod.splits)

lemma nn_Linear_Inr:
  "nn_Linear i k g = Inr (l, g') \<Longrightarrow>
     0 \<le> i \<and> 0 \<le> k \<and> in_features l = nat i \<and> out_features l = nat k
     \<and> shape (lin_weight l) = [nat k, nat i] \<and> shape (lin_bias l) = [nat k]"
  by (auto simp: nn_Linear_def filled_def sample_def split: if_splits prod.splits)

lemma init_all_shapes: "init_all d ps g = (ts, g') \<Longrightarrow> map name_shape ts = ps"
  by (induction ps arbitrary: g ts g')
     (auto simp: filled_def sample_def name_shape_def split: prod.splits)

lemma nn_LSTM_Inr:
  "nn_LSTM i h n p g = Inr (r, g') \<Longrightarrow>
     0 < i \<and> 0 < h \<and> 0 < n \<and> input_size r = nat i \<and> lstm_hidden_size r = nat h
     \<and> num_layers r = nat n
     \<and> map name_shape (lstm_params r) = lstm_shapes (nat i) (nat h) (nat n)"
  by (auto simp: nn_LSTM_def split: if_splits prod.splits dest: init_all_shapes)

lemma make_rnn_Inr:
  "make_rnn i h n p g = Inr (r, g') \<Longrightarrow>
     0 < i \<and> 0 < h \<and> 0 < n \<and> input_size r = nat i \<and> lstm_hidden_size r = nat h
     \<and> num_layers r = nat n
     \<and> map name_shape (lstm_params r) = lstm_shapes (nat i) (nat h) (nat n)"
  unfolding make_rnn_def by (cases "n = 1") (simp_all add: nn_LSTM_Inr)

lemma initialize_Inr: "initialize t g = Inr (t', g') \<Longrightarrow> shape t' = shape t"
  by (auto simp: initialize_def tensor_uniform_def sample_def Let_def split: list.splits if_splits)

lemma make_proj_decoder_None:
  assumes "make_proj_decoder h None N g = Inr (pr, dec, g')"
  shows "pr = None \<and> 0 \<le> h \<and> in_features dec = nat h \<and> out_features dec = N
       \<and> shape (lin_weight dec) = [N, nat h] \<and> shape (lin_bias dec) = [N]"
proof -
  from assms obtain dg where 1: "nn_Linear h (int N) g = Inr dg" and 2: "pr = None" "dec = fst dg"
    by (auto simp: make_proj_decoder_def elim!: bind_err_InrE)
  from nn_Linear_Inr [of h "int N" g "fst dg" "snd dg"] 1 2 show ?thesis by simp
qed

lemma make_proj_decoder_Some:
  assumes "make_proj_decoder h (Some k) N g = Inr (pr, dec, g')"
  shows "0 \<le> h \<and> 0 \<le> k \<and> in_features dec = nat k \<and> out_features dec = N
       \<and> shape (lin_weight dec) = [N, nat k] \<and> shape (lin_bias dec) = [N]
       \<and> (\<exists>q. pr = Some q \<and> in_features q = nat h \<and> out_features q = nat k
              \<and> shape (lin_weight q) = [nat k, nat h] \<and> shape (lin_bias q) = [nat k])"
proof -
  from assms obtain pg wg dg where 1: "nn_Linear h k g = Inr pg"
    and 2: "initialize (lin_weight (fst pg)) (snd pg) = Inr wg"
    and 3: "nn_Linear k (int N) (snd wg) = Inr dg"
    and 4: "pr = Some ((fst pg)\<lparr>lin_weight := fst wg\<rparr>)" "dec = fst dg"
    by (auto simp: make_proj_decoder_def elim!: bind_err_InrE)
  note a = nn_Linear_Inr [of h k g "fst pg" "snd pg"]
  note b = initialize_Inr [of "lin_weight (fst pg)" "snd pg" "fst wg" "snd wg"]
  note c = nn_Linear_Inr [of k "int N" "snd wg" "fst dg" "snd dg"]
  from a b c 1 2 3 4 show ?thesis by simp
qed


lemma init_weights_dims:
  "num_embeddings (fst (init_weights enc dec g)) = num_embeddings enc
   \<and> embedding_dim (fst (init_weights enc dec g)) = embedding_dim enc
   \<and> shape (emb_weight (fst (init_weights enc dec g))) = shape (emb_weight enc)
   \<and> in_features (fst (snd (init_weights enc dec g))) = in_features dec
   \<and> out_features (fst (snd (init_weights enc dec g))) = out_features dec
   \<and> shape (lin_weight (fst (snd (init_weights enc dec g)))) = shape (lin_weight dec)
   \<and> shape (lin_bias (fst (snd (init_weights enc dec g)))) = shape (lin_bias dec)"
  by (simp add: init_weights_def tensor_uniform_def tensor_fill_def sample_def Let_def)

lemma LanguageModel_InrD:
  assumes "LanguageModel d f h n e no p dev g = Inr (m, g')"
  obtains drop' enc g1 r g2 pr dec g3 where
    "nn_Dropout p = Inr drop'"
    "nn_Embedding (len d) e g = Inr (enc, g1)"
    "make_rnn e h n p g1 = Inr (r, g2)"
    "make_proj_decoder h no (len d) g2 = Inr (pr, dec, g3)"
    "m = \<lparr>dictionary = d, is_forward_lm = f, dropout = p, hidden_size = h, embedding_size = e,
          nlayers = n, drop = drop', encoder = fst (init_weights enc dec g3), rnn = r,
          hidden = None, nout = no, proj = pr, decoder = fst (snd (init_weights enc dec g3)),
          training = True, device = dev\<rparr>"
    "g' = snd (snd (init_weights enc dec g3))"
proof -
  from assms obtain drop' eg rg pdg where
    1: "nn_Dropout p = Inr drop'" and 2: "nn_Embedding (len d) e g = Inr eg"
    and 3: "make_rnn e h n p (snd eg) = Inr rg"
    and 4: "make_proj_decoder h no (len d) (snd rg) = Inr pdg"
    and 5: "(let edg = init_weights (fst eg) (fst (snd pdg)) (snd (snd pdg)) in
       Inr (\<lparr>dictionary = d, is_forward_lm = f, dropout = p,
             hidden_size = h, embedding_size = e, nlayers = n,
             drop = drop', encoder = fst edg, rnn = fst rg, hidden = None, nout = no,
             proj = fst pdg, decoder = fst (snd edg), training = True, device = dev\<rparr>,
            snd (snd edg))) = (Inr (m, g') :: error + (language_model \<times> generator))"
    unfolding LanguageModel_def by (elim bind_err_InrE)
  from 5 have 6: "m = \<lparr>dictionary = d, is_forward_lm = f, dropout = p, hidden_size = h, embedding_size = e,
          nlayers = n, drop = drop', encoder = fst (init_weights (fst eg) (fst (snd pdg)) (snd (snd pdg))), rnn = fst rg,
          hidden = None, nout = no, proj = fst pdg, decoder = fst (snd (init_weights (fst eg) (fst (snd pdg)) (snd (snd pdg)))),
          training = True, device = dev\<rparr>"
    and 7: "g' = snd (snd (init_weights (fst eg) (fst (snd pdg)) (snd (snd pdg))))"
    by (simp_all add: Let_def)
  show thesis
    by (rule that [of drop' "fst eg" "snd eg" "fst rg" "snd rg" "fst pdg" "fst (snd pdg)" "snd (snd pdg)"])
       (simp_all add: 1 2 3 4 6 7)
qed

lemma LanguageModel_fields:
  assumes "LanguageModel d f h n e no p dev g = Inr (m, g')"
  shows "dictionary m = d \<and> is_forward_lm m = f \<and> hidden_size m = h \<and> nlayers m = n
       \<and> embedding_size m = e \<and> nout m = no \<and> dropout m = p \<and> hidden m = None \<and> device m = dev"
  using assms by (elim LanguageModel_InrD) simp

lemma LanguageModel_layers:
  assumes "LanguageModel d f h n e no p dev g = Inr (m, g')"
  shows "num_embeddings (encoder m) = len d \<and> embedding_dim (encoder m) = nat e
       \<and> input_size (rnn m) = nat e \<and> lstm_hidden_size (rnn m) = nat h \<and> num_layers (rnn m) = nat n
       \<and> in_features (decoder m) = decoder_in h no \<and> out_features (decoder m) = len d
       \<and> (case no of None \<Rightarrow> proj m = None
           | Some k \<Rightarrow> \<exists>pr. proj m = Some pr \<and> in_features pr = nat h \<and> out_features pr = nat k)
       \<and> 0 < e \<and> 0 < h \<and> 0 < n \<and> 0 \<le> p \<and> p \<le> 1"
  using assms
proof (elim LanguageModel_InrD)
  fix drop' enc g1 r g2 pr dec g3
  assume 1: "nn_Dropout p = Inr drop'"
    and 2: "nn_Embedding (len d) e g = Inr (enc, g1)"
    and 3: "make_rnn e h n p g1 = Inr (r, g2)"
    and 4: "make_proj_decoder h no (len d) g2 = Inr (pr, dec, g3)"
    and 5: "m = \<lparr>dictionary = d, is_forward_lm = f, dropout = p, hidden_size = h, embedding_size = e,
          nlayers = n, drop = drop', encoder = fst (init_weights enc dec g3), rnn = r,
          hidden = None, nout = no, proj = pr, decoder = fst (snd (init_weights enc dec g3)),
          training = True, device = dev\<rparr>"
  from 1 have p: "0 \<le> p \<and> p \<le> 1" by (simp add: nn_Dropout_def split: if_splits)
  note e = nn_Embedding_Inr [OF 2]
  note r = make_rnn_Inr [OF 3]
  show ?thesis
  proof (cases no)
    case None
    with 4 have "make_proj_decoder h None (len d) g2 = Inr (pr, dec, g3)" by simp
    from make_proj_decoder_None [OF this] p e r None show ?thesis
      by (simp add: 5 init_weights_dims decoder_in_def)
  next
    case (Some k)
    with 4 have "make_proj_decoder h (Some k) (len d) g2 = Inr (pr, dec, g3)" by simp
    from make_proj_decoder_Some [OF this] p e r Some show ?thesis
      by (auto simp add: 5 init_weights_dims decoder_in_def)
  qed
qed

lemma nn_Embedding_ok: "0 \<le> d \<Longrightarrow> \<exists>x. nn_Embedding n d g = Inr x"
  by (simp add: nn_Embedding_def split_beta)

lemma nn_Linear_ok: "0 \<le> i \<Longrightarrow> 0 \<le> k \<Longrightarrow> \<exists>x. nn_Linear i k g = Inr x"
  by (simp add: nn_Linear_def split_beta)

lemma make_rnn_ok:
  "0 < i \<Longrightarrow> 0 < h \<Longrightarrow> 0 < n \<Longrightarrow> 0 \<le> p \<Longrightarrow> p \<le> 1 \<Longrightarrow> \<exists>x. make_rnn i h n p g = Inr x"
  by (simp add: make_rnn_def nn_LSTM_def split_beta)

lemma initialize_ok:
  "shape t = [a, b] \<Longrightarrow> 0 < a + b \<Longrightarrow> \<exists>x. initialize t g = Inr x"
  by (simp add: initialize_def Let_def)

lemma make_proj_decoder_ok:
  assumes "0 < h" "case no of None \<Rightarrow> True | Some k \<Rightarrow> 0 \<le> k"
  shows "\<exists>x. make_proj_decoder h no N g = Inr x"
proof (cases no)
  case None
  obtain dg where "nn_Linear h (int N) g = Inr dg"
    using nn_Linear_ok [of h "int N" g] assms(1) by auto
  then show ?thesis using None by (simp add: make_proj_decoder_def bind_err_def)
next
  case (Some k)
  then have k: "0 \<le> k" using assms(2) by simp
  obtain pg where 1: "nn_Linear h k g = Inr pg"
    using nn_Linear_ok [of h k g] assms(1) k by auto
  have "shape (lin_weight (fst pg)) = [nat k, nat h]"
    using nn_Linear_Inr [of h k g "fst pg" "snd pg"] 1 by simp
  moreover have "0 < nat k + nat h" using assms(1) by simp
  ultimately obtain wg where 2: "initialize (lin_weight (fst pg)) (snd pg) = Inr wg"
    using initialize_ok [of "lin_weight (fst pg)" "nat k" "nat h" "snd pg"] by auto
  obtain dg where 3: "nn_Linear k (int N) (snd wg) = Inr dg"
    using nn_Linear_ok [of k "int N" "snd wg"] k by auto
  show ?thesis using Some 1 2 3 by (simp add: make_proj_decoder_def bind_err_def)
qed

lemma LanguageModel_accepts:
  assumes "0 < h" "0 < n" "0 < e" "case no of None \<Rightarrow> True | Some k \<Rightarrow> 0 \<le> k" "0 \<le> p" "p \<le> 1"
  shows "\<exists>m g'. LanguageModel d f h n e no p dev g = Inr (m, g')"
proof -
  have 1: "nn_Dropout p = Inr p" using assms by (simp add: nn_Dropout_def)
  obtain eg where 2: "nn_Embedding (len d) e g = Inr eg"
    using nn_Embedding_ok [of e "len d" g] assms by auto
  obtain rg where 3: "make_rnn e h n p (snd eg) = Inr rg"
    using make_rnn_ok [of e h n p "snd eg"] assms by auto
  obtain pdg where 4: "make_proj_decoder h no (len d) (snd rg) = Inr pdg"
    using make_proj_decoder_ok [of h no "len d" "snd rg"] assms by auto
  show ?thesis
    by (simp add: LanguageModel_def bind_err_def 1 2 3 4 Let_def)
qed

lemma bind_err_InlE:
  assumes "bind_err r f = Inl e"
  obtains "r = Inl e" | x where "r = Inr x" and "f x = Inl e"
  using assms by (cases r) (simp_all add: bind_err_def)

lemma nn_Linear_Inl: "nn_Linear i k g = Inl err \<Longrightarrow> err = TorchError"
  by (simp add: nn_Linear_def split_beta split: if_splits)

lemma make_rnn_Inl: "make_rnn i h n p g = Inl err \<Longrightarrow> err = TorchError"
  by (simp add: make_rnn_def nn_LSTM_def split_beta split: if_splits)

lemma make_proj_decoder_Inl:
  assumes "make_proj_decoder h no N g = Inl err" "0 < h"
  shows "err = TorchError"
proof (cases no)
  case None
  then show ?thesis using assms(1)
    by (auto simp: make_proj_decoder_def elim!: bind_err_InlE dest: nn_Linear_Inl)
next
  case (Some k)
  from assms(1) Some consider
      (a) "nn_Linear h k g = Inl err"
    | (b) pg where "nn_Linear h k g = Inr pg" "initialize (lin_weight (fst pg)) (snd pg) = Inl err"
    | (c) g4 where "nn_Linear k (int N) g4 = Inl err"
    by (auto simp: make_proj_decoder_def elim!: bind_err_InlE)
  then show ?thesis
  proof cases
    case a then show ?thesis by (rule nn_Linear_Inl)
  next
    case b
    have "shape (lin_weight (fst pg)) = [nat k, nat h]"
      using nn_Linear_Inr [of h k g "fst pg" "snd pg"] b(1) by simp
    then show ?thesis using b(2) assms(2) by (simp add: initialize_def Let_def)
  next
    case c then show ?thesis by (rule nn_Linear_Inl)
  qed
qed

lemma LanguageModel_error:
  assumes "LanguageModel d f h n e no p dev g = Inl err"
  shows "err = TorchError"
proof -
  from assms consider
      (a) "nn_Dropout p = Inl err"
    | (b) "nn_Embedding (len d) e g = Inl err"
    | (c) g1 where "make_rnn e h n p g1 = Inl err"
    | (d) g1 rg g2 where "make_rnn e h n p g1 = Inr rg" "make_proj_decoder h no (len d) g2 = Inl err"
    unfolding LanguageModel_def by (elim bind_err_InlE) (auto simp: Let_def)
  then show ?thesis
  proof cases
    case a then show ?thesis by (simp add: nn_Dropout_def split: if_splits)
  next
    case b then show ?thesis by (simp add: nn_Embedding_def split_beta split: if_splits)
  next
    case c then show ?thesis by (rule make_rnn_Inl)
  next
    case d
    have "0 < h" using make_rnn_Inr [of e h n p g1 "fst rg" "snd rg"] d(1) by simp
    with d(2) show ?thesis by (rule make_proj_decoder_Inl)
  qed
qed

lemma constructed_eq:
  assumes "\<exists>m g'. r = Inr (m, g')"
  shows "r = Inr (constructed r, generator_after r)"
  using assms by (auto simp: constructed_def generator_after_def)

lemma demo_model_built:
  "LanguageModel demo_dictionary True 2 1 3 None (1 / 2) CPU demo_generator =
     Inr (demo_model,
          generator_after (LanguageModel demo_dictionary True 2 1 3 None (1 / 2) CPU demo_generator))"
  unfolding demo_model_def by (rule constructed_eq, rule LanguageModel_accepts) simp_all

lemma projected_model_built:
  "LanguageModel demo_dictionary True 2 1 3 (Some 1) (1 / 2) CPU demo_generator =
     Inr (projected_model,
          generator_after (LanguageModel demo_dictionary True 2 1 3 (Some 1) (1 / 2) CPU demo_generator))"
  unfolding projected_model_def by (rule constructed_eq, rule LanguageModel_accepts) simp_all

lemma single_model_built:
  "LanguageModel single_dictionary True 2 1 3 None (1 / 2) CPU demo_generator =
     Inr (single_model,
          generator_after (LanguageModel single_dictionary True 2 1 3 None (1 / 2) CPU demo_generator))"
  unfolding single_model_def by (rule constructed_eq, rule LanguageModel_accepts) simp_all

lemma empty_model_built:
  "LanguageModel empty_dictionary True 2 1 3 None (1 / 2) CPU demo_generator =
     Inr (empty_model,
          generator_after (LanguageModel empty_dictionary True 2 1 3 None (1 / 2) CPU demo_generator))"
  unfolding empty_model_def by (rule constructed_eq, rule LanguageModel_accepts) simp_all

section \<open>Hidden states\<close>

lemma init_hidden_eval:
  assumes "0 \<le> nlayers self" "0 \<le> hidden_size self" "0 \<le> bsz"
  shows "init_hidden self garbage bsz =
    Inr (\<lparr>shape = [nat (nlayers self), nat bsz, nat (hidden_size self)],
          data = replicate (nat (nlayers self) * nat bsz * nat (hidden_size self)) 0,
          grad_fn = None\<rparr>,
         \<lparr>shape = [nat (nlayers self), nat bsz, nat (hidden_size self)],
          data = replicate (nat (nlayers self) * nat bsz * nat (hidden_size self)) 0,
          grad_fn = None\<rparr>)"
  using assms
  by (simp add: init_hidden_def tensor_new_def bind_err_def tensor_zero_def tensor_fill_def
        clone_def detach_def numel_def mult.assoc)

lemma replicate_6: "replicate 6 x = [x, x, x, x, x, x]"
  by (simp add: numeral_eq_Suc)

lemma init_hidden_Inr:
  assumes "init_hidden self garbage bsz = Inr p"
  shows "grad_fn (fst p) = None \<and> grad_fn (snd p) = None"
  using assms
  by (auto simp: init_hidden_def bind_err_Inr detach_def)

text \<open>
  C9. For every batch size \<open>b\<close> (a non-negative number) and every model whose layer
  count and hidden width are not negative, \<^verbatim>\<open>init_hidden(b)\<close> returns a pair of
  tensors, each of shape \<open>(layer_count, b, hidden_width)\<close>, each with every element
  zero and without computation history.
\<close>

theorem init_hidden_zeros:
  assumes "0 \<le> nlayers self" and "0 \<le> hidden_size self" and "0 \<le> b"
  shows "init_hidden self garbage b =
    Inr (\<lparr>shape = [nat (nlayers self), nat b, nat (hidden_size self)],
          data = replicate (nat (nlayers self) * nat b * nat (hidden_size self)) 0,
          grad_fn = None\<rparr>,
         \<lparr>shape = [nat (nlayers self), nat b, nat (hidden_size self)],
          data = replicate (nat (nlayers self) * nat b * nat (hidden_size self)) 0,
          grad_fn = None\<rparr>)"
  using assms by (rule init_hidden_eval)

theorem init_hidden_zeros_witness:
  "init_hidden demo_model 7 3 =
     Inr (\<lparr>shape = [1, 3, 2], data = [0, 0, 0, 0, 0, 0], grad_fn = None\<rparr>,
          \<lparr>shape = [1, 3, 2], data = [0, 0, 0, 0, 0, 0], grad_fn = None\<rparr>)"
  using init_hidden_zeros [of demo_model 3 7] LanguageModel_fields [OF demo_model_built]
  by (simp add: replicate_6)

lemma map_leaves_cong:
  "(\<And>x. x \<in> set hs \<Longrightarrow> map f (leaves (r x)) = map f (leaves x)) \<Longrightarrow>
   map f (concat (map leaves (map r hs))) = map f (concat (map leaves hs))"
  by (induction hs) auto

lemma nesting_repackage: "nesting_of (repackage_hidden h) = nesting_of h"
  by (induction h) simp_all

lemma data_repackage: "map data (leaves (repackage_hidden h)) = map data (leaves h)"
proof (induction h)
  case (Leaf t)
  show ?case by (simp add: torch_tensor_def)
next
  case (Node hs)
  then show ?case using map_leaves_cong [of hs data repackage_hidden] by simp
qed

lemma shape_repackage: "map shape (leaves (repackage_hidden h)) = map shape (leaves h)"
proof (induction h)
  case (Leaf t)
  show ?case by (simp add: torch_tensor_def)
next
  case (Node hs)
  then show ?case using map_leaves_cong [of hs shape repackage_hidden] by simp
qed

lemma history_repackage: "t \<in> set (leaves (repackage_hidden h)) \<Longrightarrow> grad_fn t = None"
  by (induction h arbitrary: t) (auto simp: torch_tensor_def)

lemma grad_repackage:
  "map grad_fn (leaves (repackage_hidden h)) = replicate (length (leaves h)) None"
proof -
  have "length (leaves (repackage_hidden h)) = length (leaves h)"
    using arg_cong [OF data_repackage, of length h] by simp
  moreover have "map grad_fn (leaves (repackage_hidden h)) =
      replicate (length (leaves (repackage_hidden h))) None"
    by (rule replicate_eqI) (auto simp: history_repackage)
  ultimately show ?thesis by simp
qed

text \<open>
  C2. For every hidden state \<open>h\<close>, a tensor or an arbitrarily nested tuple of
  tensors, \<^verbatim>\<open>repackage_hidden(h)\<close> has the nesting of \<open>h\<close>, its tensors have, leaf by
  leaf, the shapes and the elements of those of \<open>h\<close>, and none of them has a
  computation history. In particular the pair \<^verbatim>\<open>init_hidden(b)\<close> returns is
  repackaged to a pair of the same tensors, whatever the batch size.
\<close>

theorem repackage_hidden_value_preserving:
  "nesting_of (repackage_hidden h) = nesting_of h
   \<and> map shape (leaves (repackage_hidden h)) = map shape (leaves h)
   \<and> map data (leaves (repackage_hidden h)) = map data (leaves h)
   \<and> map grad_fn (leaves (repackage_hidden h)) = replicate (length (leaves h)) None
   \<and> (init_hidden self garbage b = Inr p \<longrightarrow> repackage_hidden (tuple2 p) = tuple2 p)"
proof -
  have "repackage_hidden (tuple2 p) = tuple2 p" if "init_hidden self garbage b = Inr p"
    using init_hidden_Inr [OF that] by (simp add: tuple2_def torch_tensor_def)
  then show ?thesis
    by (simp add: nesting_repackage shape_repackage data_repackage grad_repackage)
qed

theorem repackage_hidden_value_preserving_witness:
  "repackage_hidden
     (Node [Leaf \<lparr>shape = [2], data = [3, 4 :: int], grad_fn = Some ''AddBackward''\<rparr>,
            Node [Leaf \<lparr>shape = [], data = [5], grad_fn = Some ''MulBackward''\<rparr>]]) =
     Node [Leaf \<lparr>shape = [2], data = [3, 4], grad_fn = None\<rparr>,
           Node [Leaf \<lparr>shape = [], data = [5], grad_fn = None\<rparr>]]
   \<and> repackage_hidden
       (tuple2 (\<lparr>shape = [1, 3, 2], data = [0, 0, 0, 0, 0, 0 :: real], grad_fn = None\<rparr>,
                \<lparr>shape = [1, 3, 2], data = [0, 0, 0, 0, 0, 0], grad_fn = None\<rparr>)) =
     tuple2 (\<lparr>shape = [1, 3, 2], data = [0, 0, 0, 0, 0, 0], grad_fn = None\<rparr>,
             \<lparr>shape = [1, 3, 2], data = [0, 0, 0, 0, 0, 0], grad_fn = None\<rparr>)"
proof -
  have "init_hidden demo_model 7 3 =
     Inr (\<lparr>shape = [1, 3, 2], data = [0, 0, 0, 0, 0, 0], grad_fn = None\<rparr>,
          \<lparr>shape = [1, 3, 2], data = [0, 0, 0, 0, 0, 0], grad_fn = None\<rparr>)"
    using init_hidden_eval [of demo_model 3 7] LanguageModel_fields [OF demo_model_built]
    by (simp add: replicate_6)
  from repackage_hidden_value_preserving [THEN conjunct2, THEN conjunct2, THEN conjunct2,
      THEN conjunct2, THEN mp, OF this]
  show ?thesis by (simp add: torch_tensor_def)
qed

section \<open>The forward pass\<close>

lemma forward_eval:
  assumes enc: "num_embeddings (encoder self) = N" "embedding_dim (encoder self) = E"
    and r: "input_size (rnn self) = E" "lstm_hidden_size (rnn self) = H" "num_layers (rnn self) = NL"
    and pr: "case proj self of None \<Rightarrow> W = H | Some q \<Rightarrow> in_features q = H \<and> out_features q = W"
    and dec: "in_features (decoder self) = W" "out_features (decoder self) = N"
    and inp: "shape input = [L, B]" "0 < L" "\<forall>i \<in> set (data input). 0 \<le> i \<and> i < int N"
  shows "forward self input ([NL, B, H], [NL, B, H]) = Inr ([L, B, N], [L, B, W], ([NL, B, H], [NL, B, H]))"
  using assms
  by (cases "proj self")
     (simp_all add: forward_def embedding_call_def lstm_call_def linear_call_def size_at_def
        view_def numel_def bind_err_def dropout_call_def)

lemma forward_constructed:
  assumes "LanguageModel d f h n e no p dev g = Inr (self, g')"
    and "shape input = [L, B]"
    and "\<forall>i \<in> set (data input). 0 \<le> i \<and> i < int (len d)"
    and "0 < L"
  shows "forward self input ([nat n, B, nat h], [nat n, B, nat h]) =
           Inr ([L, B, len d], [L, B, decoder_in h no], ([nat n, B, nat h], [nat n, B, nat h]))"
proof -
  note L = LanguageModel_layers [OF assms(1)]
  have pr: "case proj self of None \<Rightarrow> decoder_in h no = nat h
            | Some q \<Rightarrow> in_features q = nat h \<and> out_features q = decoder_in h no"
    using L by (auto simp: decoder_in_def split: option.splits)
  show ?thesis
    using L pr assms(2,3,4) by (intro forward_eval) simp_all
qed

lemma forward_empty_sequence:
  assumes "LanguageModel d f h n e no p dev g = Inr (self, g')"
    and "shape input = [0, B]"
    and "data input = []"
  shows "forward self input hidden0 = Inl TorchError"
  using assms(2,3)
  by (simp add: forward_def embedding_call_def dropout_call_def lstm_call_def bind_err_def)

text \<open>
  C1, as the code has it. For every valid configuration, the model constructed
  from it, every two-dimensional batch of symbol indices (indices of the
  dictionary) of shape \<open>(sequence_length, batch_size)\<close> with a sequence length of at
  least one, and every hidden-state pair of shape
  \<open>(layer_count, batch_size, hidden_width)\<close>, \<^verbatim>\<open>forward\<close> returns logits of shape
  \<open>(sequence_length, batch_size, N)\<close> with \<open>N\<close> the size of the dictionary, a
  representation of shape \<open>(sequence_length, batch_size, w)\<close> with \<open>w\<close> the projection
  width where one is configured and the hidden width otherwise, and a hidden state
  of the shape of the one it was given.
\<close>

theorem forward_shapes:
  assumes "valid_configuration h n e no p"
    and "LanguageModel d f h n e no p dev g = Inr (self, g')"
    and "shape input = [sequence_length, batch_size]"
    and "1 \<le> sequence_length"
    and "\<forall>i \<in> set (data input). 0 \<le> i \<and> i < int (len d)"
    and "hidden0 = ([nat n, batch_size, nat h], [nat n, batch_size, nat h])"
  shows "forward self input hidden0 =
           Inr ([sequence_length, batch_size, len d],
                [sequence_length, batch_size, (case no of Some k \<Rightarrow> nat k | None \<Rightarrow> nat h)],
                hidden0)"
  using forward_constructed [OF assms(2,3,5)] assms(4,6) by (simp add: decoder_in_def)

theorem forward_shapes_witness:
  "forward projected_model \<lparr>shape = [2, 1], data = [0, 2], grad_fn = None\<rparr> ([1, 1, 2], [1, 1, 2]) =
     Inr ([2, 1, 3], [2, 1, 1], ([1, 1, 2], [1, 1, 2]))"
  using forward_shapes [OF _ projected_model_built, of "\<lparr>shape = [2, 1], data = [0, 2], grad_fn = None\<rparr>" 2 1
      "([1, 1, 2], [1, 1, 2])"]
  by (simp add: valid_configuration_def demo_dictionary_def len_def)

text \<open>
  C1 as stated fails: on a batch of shape \<open>(0, 1)\<close>, an empty sequence, the call of
  the recurrent core raises, and \<^verbatim>\<open>forward\<close> returns no shapes at all.
\<close>

theorem forward_rejects_empty_sequence:
  "forward demo_model \<lparr>shape = [0, 1], data = [], grad_fn = None\<rparr> ([1, 1, 2], [1, 1, 2]) =
     Inl TorchError"
  by (rule forward_empty_sequence [OF demo_model_built]) simp_all

section \<open>Text generation\<close>

lemma generate_loop_samples:
  assumes fwd: "\<And>x. 0 \<le> x \<Longrightarrow> x < int N \<Longrightarrow>
      forward self \<lparr>shape = [1, 1], data = [x], grad_fn = None\<rparr> hid = Inr ([1, 1, N], out, hid)"
    and N: "2 \<le> N" "length (idx2item (dictionary self)) = N"
    and pick: "\<forall>j. pick j < N"
    and x0: "0 \<le> x0" "x0 < int N"
  shows "generate_loop self pick i k x0 hid chars =
           Inr (chars @ map (\<lambda>j. idx2item (dictionary self) ! pick j) [i ..< i + k])"
  using x0
proof (induction k arbitrary: i x0 chars)
  case 0
  show ?case by simp
next
  case (Suc k)
  have sq: "squeeze [Suc 0, Suc 0, N] = [N]" using N(1) by (simp add: squeeze_def)
  have pk: "pick i < N" using pick by simp
  have nx: "0 \<le> int (pick i)" "int (pick i) < int N" using pk by simp_all
  have up: "[i ..< Suc (i + k)] = i # [Suc i ..< Suc (i + k)]" by (simp add: upt_rec)
  show ?case
    using fwd [OF Suc.prems] Suc.IH [OF nx] N pk
    by (simp add: bind_err_def sq multinomial1_def list_getitem_def up del: upt_Suc)
qed

lemma rand_index:
  assumes "0 \<le> u" "u < 1" "0 < N"
  shows "0 \<le> \<lfloor>u * real N\<rfloor> \<and> \<lfloor>u * real N\<rfloor> < int N"
proof -
  have "0 \<le> u * real N" using assms by simp
  moreover have "u * real N < real N" using assms by simp
  ultimately show ?thesis by (simp add: floor_less_iff)
qed

lemma init_hidden_constructed:
  assumes "LanguageModel d f h n e no p dev g = Inr (self, g')" "0 \<le> b"
  shows "\<exists>hc. init_hidden self garbage b = Inr hc \<and> shape (fst hc) = [nat n, nat b, nat h]
           \<and> shape (snd hc) = [nat n, nat b, nat h]"
  using init_hidden_eval [of self b garbage] LanguageModel_fields [OF assms(1)]
    LanguageModel_layers [OF assms(1)] assms(2)
  by simp

text \<open>
  With at least two symbols in the dictionary, \<^verbatim>\<open>generate_text(k)\<close> returns the
  concatenation of the \<open>k\<close> symbols the sampler picked, in order (none for
  \<open>k \<le> 0\<close>), provided \<^verbatim>\<open>torch.rand\<close> draws from \<open>[0, 1)\<close> and the sampler returns
  indices of its weight vector.
\<close>

lemma generate_text_samples:
  assumes built: "LanguageModel d f h n e no p dev g = Inr (self, g')"
    and N: "2 \<le> len d"
    and u: "0 \<le> u" "u < 1"
    and pick: "\<forall>j. pick j < len d"
  shows "generate_text self garbage u pick k =
           Inr (concat (map (\<lambda>j. idx2item d ! pick j) [0 ..< nat k]))"
proof -
  obtain hc where hc: "init_hidden self garbage 1 = Inr hc"
      "shape (fst hc) = [nat n, 1, nat h]" "shape (snd hc) = [nat n, 1, nat h]"
    using init_hidden_constructed [OF built, of 1 garbage] by auto
  have dict: "dictionary self = d" using LanguageModel_fields [OF built] by simp
  have fwd: "forward self \<lparr>shape = [1, 1], data = [x], grad_fn = None\<rparr> ([nat n, 1, nat h], [nat n, 1, nat h])
      = Inr ([1, 1, len d], [1, 1, decoder_in h no], ([nat n, 1, nat h], [nat n, 1, nat h]))"
    if "0 \<le> x" "x < int (len d)" for x
    using forward_constructed [OF built, of "\<lparr>shape = [1, 1], data = [x], grad_fn = None\<rparr>" 1 1] that
    by simp
  have x0: "0 \<le> \<lfloor>u * real (len d)\<rfloor>" "\<lfloor>u * real (len d)\<rfloor> < int (len d)"
    using rand_index [OF u, of "len d"] N by simp_all
  have "generate_loop self pick 0 (nat k) \<lfloor>u * real (len d)\<rfloor> ([nat n, 1, nat h], [nat n, 1, nat h]) []
      = Inr ([] @ map (\<lambda>j. idx2item (dictionary self) ! pick j) [0 ..< 0 + nat k])"
    by (rule generate_loop_samples [where N = "len d" and out = "[1, 1, decoder_in h no]"])
       (use fwd N pick x0 dict in \<open>simp_all add: len_def\<close>)
  then show ?thesis
    using hc dict by (simp add: generate_text_def bind_err_def len_def)
qed

lemma generate_text_single:
  assumes built: "LanguageModel d f h n e no p dev g = Inr (self, g')"
    and N: "len d = 1"
    and u: "0 \<le> u" "u < 1"
    and k: "0 < k"
  shows "generate_text self garbage u pick k = Inl TorchError"
proof -
  obtain hc where hc: "init_hidden self garbage 1 = Inr hc"
      "shape (fst hc) = [nat n, 1, nat h]" "shape (snd hc) = [nat n, 1, nat h]"
    using init_hidden_constructed [OF built, of 1 garbage] by auto
  have dict: "dictionary self = d" using LanguageModel_fields [OF built] by simp
  have x0: "\<lfloor>u * real (len d)\<rfloor> = 0"
    using u N by (simp add: floor_eq_iff)
  have fwd: "forward self \<lparr>shape = [1, 1], data = [0], grad_fn = None\<rparr> ([nat n, 1, nat h], [nat n, 1, nat h])
      = Inr ([1, 1, 1], [1, 1, decoder_in h no], ([nat n, 1, nat h], [nat n, 1, nat h]))"
    using forward_constructed [OF built, of "\<lparr>shape = [1, 1], data = [0], grad_fn = None\<rparr>" 1 1] N
    by simp
  obtain k' where k': "nat k = Suc k'" using k by (cases "nat k") simp_all
  show ?thesis
    using hc dict x0 fwd k'
    by (simp add: generate_text_def bind_err_def len_def squeeze_def multinomial1_def)
qed

lemma generate_text_empty:
  assumes built: "LanguageModel d f h n e no p dev g = Inr (self, g')"
    and N: "len d = 0"
  shows "generate_text self garbage u pick k = (if k \<le> 0 then Inr [] else Inl TorchError)"
    and "forward self \<lparr>shape = [1, 1], data = [0], grad_fn = None\<rparr> hid = Inl TorchError"
proof -
  obtain hc where hc: "init_hidden self garbage 1 = Inr hc"
    using init_hidden_constructed [OF built, of 1 garbage] by auto
  have dict: "dictionary self = d" using LanguageModel_fields [OF built] by simp
  show fwd: "forward self \<lparr>shape = [1, 1], data = [0], grad_fn = None\<rparr> hid = Inl TorchError" for hid
    using LanguageModel_layers [OF built] N
    by (simp add: forward_def embedding_call_def bind_err_def)
  show "generate_text self garbage u pick k = (if k \<le> 0 then Inr [] else Inl TorchError)"
  proof (cases "k \<le> 0")
    case True
    then show ?thesis using hc by (simp add: generate_text_def bind_err_def)
  next
    case False
    then obtain k' where k': "nat k = Suc k'" by (cases "nat k") simp_all
    show ?thesis
      using hc dict N False k' fwd
      by (simp add: generate_text_def bind_err_def len_def)
  qed
qed

text \<open>
  C3 claims \<open>n\<close> sampled symbols for every \<open>n > 0\<close> and every non-empty dictionary.
  With a dictionary of exactly one symbol the prediction of shape \<open>(1, 1, 1)\<close> is
  squeezed to a tensor without dimensions, which \<^verbatim>\<open>torch.multinomial\<close> does not
  take: \<^verbatim>\<open>generate_text(1)\<close> fails in its first iteration.
\<close>

theorem generate_text_single_symbol:
  "generate_text single_model 0 0 (\<lambda>i. 0) 1 = Inl TorchError"
  by (rule generate_text_single [OF single_model_built]) (simp_all add: single_dictionary_def len_def)

section \<open>What the constructor checks\<close>

lemma LanguageModel_rejects:
  assumes "n < 1 \<or> h \<le> 0 \<or> e \<le> 0"
  shows "LanguageModel d f h n e no p dev g = Inl TorchError"
proof (cases "LanguageModel d f h n e no p dev g")
  case (Inl err)
  then show ?thesis using LanguageModel_error [of d f h n e no p dev g err] by simp
next
  case (Inr mg)
  then have "LanguageModel d f h n e no p dev g = Inr (fst mg, snd mg)" by simp
  from LanguageModel_layers [OF this] assms show ?thesis by auto
qed

text \<open>
  C4, as the code has it. Constructing the model fails whenever the layer count
  is below one, the hidden width is not positive or the embedding width is not
  positive; the error is the one of the tensor library's layer constructor that
  rejects the value, never \<open>ConfigurationError\<close>, which the constructor has no
  statement to raise; and when the construction succeeds, the three values are
  stored as they were given.
\<close>

theorem constructor_no_validation:
  "(n < 1 \<or> h \<le> 0 \<or> e \<le> 0 \<longrightarrow> LanguageModel d f h n e no p dev g = Inl TorchError)
   \<and> LanguageModel d f h n e no p dev g \<noteq> Inl ConfigurationError
   \<and> (LanguageModel d f h n e no p dev g = Inr (m, g') \<longrightarrow>
        nlayers m = n \<and> hidden_size m = h \<and> embedding_size m = e)"
proof -
  have "LanguageModel d f h n e no p dev g \<noteq> Inl ConfigurationError"
    using LanguageModel_error [of d f h n e no p dev g ConfigurationError] by auto
  then show ?thesis
    using LanguageModel_rejects [of n h e d f no p dev g]
      LanguageModel_fields [of d f h n e no p dev g m g']
    by auto
qed

theorem constructor_no_validation_witness:
  "LanguageModel demo_dictionary True 2 0 3 None (1 / 2) CPU demo_generator = Inl TorchError
   \<and> LanguageModel demo_dictionary True 0 1 3 None (1 / 2) CPU demo_generator = Inl TorchError
   \<and> LanguageModel demo_dictionary True 2 1 0 None (1 / 2) CPU demo_generator = Inl TorchError
   \<and> nlayers demo_model = 1 \<and> hidden_size demo_model = 2 \<and> embedding_size demo_model = 3"
  using constructor_no_validation [of 0 2 3 demo_dictionary True None "1 / 2" CPU demo_generator]
    constructor_no_validation [of 1 0 3 demo_dictionary True None "1 / 2" CPU demo_generator]
    constructor_no_validation [of 1 2 0 demo_dictionary True None "1 / 2" CPU demo_generator]
    constructor_no_validation [of 1 2 3 demo_dictionary True None "1 / 2" CPU demo_generator demo_model]
    demo_model_built
  by simp

text \<open>
  C4 as stated fails: with a layer count of 0, with a hidden width of 0 and with
  an embedding width of 0 the construction fails, but with the tensor library's
  error, not with \<open>ConfigurationError\<close>.
\<close>

theorem constructor_error_is_not_configuration_error:
  "LanguageModel demo_dictionary True 2 0 3 None (1 / 2) CPU demo_generator = Inl TorchError
   \<and> LanguageModel demo_dictionary True 0 1 3 None (1 / 2) CPU demo_generator = Inl TorchError
   \<and> LanguageModel demo_dictionary True 2 1 0 None (1 / 2) CPU demo_generator = Inl TorchError
   \<and> LanguageModel demo_dictionary True 2 0 3 None (1 / 2) CPU demo_generator \<noteq> Inl ConfigurationError"
proof -
  have "LanguageModel demo_dictionary True 2 0 3 None (1 / 2) CPU demo_generator = Inl TorchError"
    by (rule LanguageModel_rejects) simp
  moreover have "LanguageModel demo_dictionary True 0 1 3 None (1 / 2) CPU demo_generator = Inl TorchError"
    by (rule LanguageModel_rejects) simp
  moreover have "LanguageModel demo_dictionary True 2 1 0 None (1 / 2) CPU demo_generator = Inl TorchError"
    by (rule LanguageModel_rejects) simp
  ultimately show ?thesis by simp
qed

section \<open>Generating from an empty dictionary\<close>

text \<open>
  C5, as the code has it. For a model whose dictionary is empty, \<^verbatim>\<open>generate_text\<close>
  checks nothing before its loop and never ends in \<open>ConfigurationError\<close>: for a
  count \<open>k \<le> 0\<close> it returns the empty string, and for \<open>k > 0\<close> it fails in the
  first forward pass of the loop, with the tensor library's error for looking up
  index 0 in an embedding table without rows.
\<close>

theorem generate_text_empty_dictionary:
  assumes "LanguageModel d f h n e no p dev g = Inr (self, g')" and "len d = 0"
  shows "generate_text self garbage u pick k = (if k \<le> 0 then Inr [] else Inl TorchError)
       \<and> forward self \<lparr>shape = [1, 1], data = [0], grad_fn = None\<rparr> hid = Inl TorchError
       \<and> generate_text self garbage u pick k \<noteq> Inl ConfigurationError"
  using generate_text_empty [OF assms] by simp

theorem generate_text_empty_dictionary_witness:
  "generate_text empty_model 0 0 (\<lambda>i. 0) 5 = Inl TorchError
   \<and> forward empty_model \<lparr>shape = [1, 1], data = [0], grad_fn = None\<rparr> ([1, 1, 2], [1, 1, 2]) = Inl TorchError"
  using generate_text_empty_dictionary [OF empty_model_built, of 0 0 "\<lambda>i. 0" 5 "([1, 1, 2], [1, 1, 2])"]
  by (simp add: empty_dictionary_def len_def)

text \<open>
  C5 as stated fails: with an empty dictionary \<^verbatim>\<open>generate_text(0)\<close> returns the empty
  string, and \<^verbatim>\<open>generate_text(1)\<close> does not end in \<open>ConfigurationError\<close>.
\<close>

theorem generate_text_empty_dictionary_no_configuration_error:
  "generate_text empty_model 0 0 (\<lambda>i. 0) 0 = Inr []
   \<and> generate_text empty_model 0 0 (\<lambda>i. 0) 1 \<noteq> Inl ConfigurationError"
proof -
  have "len empty_dictionary = 0" by (simp add: empty_dictionary_def len_def)
  from generate_text_empty(1) [OF empty_model_built this, of 0 0 "\<lambda>i. 0" 0]
    generate_text_empty(1) [OF empty_model_built this, of 0 0 "\<lambda>i. 0" 1]
  show ?thesis by simp
qed

section \<open>Saving and loading\<close>

lemma bind_err_simps [simp]:
  "bind_err (Inr x) f = f x" "bind_err (Inl e) f = Inl e"
  by (simp_all add: bind_err_def)

lemma getitem_simps:
  "state k = Some v \<Longrightarrow> getitem state k = Inr v"
  "state k = None \<Longrightarrow> getitem state k = Inl (KeyError k)"
  by (simp_all add: getitem_def)

lemma rebuild_missing:
  assumes "find (\<lambda>k. state k = None) config_keys = Some k"
  shows "rebuild w state = Inl (KeyError k)"
  using assms
  by (auto simp: config_keys_def rebuild_def getitem_def split: if_splits)

lemma name_shape_state_dict:
  "map name_shape (state_dict m) =
     [(EncoderWeight, shape (emb_weight (encoder m)))]
     @ map name_shape (lstm_params (rnn m))
     @ (case proj m of
          Some p \<Rightarrow> [(ProjWeight, shape (lin_weight p)), (ProjBias, shape (lin_bias p))]
        | None \<Rightarrow> [])
     @ [(DecoderWeight, shape (lin_weight (decoder m))), (DecoderBias, shape (lin_bias (decoder m)))]"
  by (cases "proj m") (simp_all add: state_dict_def name_shape_def detach_def split_beta)

lemma LanguageModel_param_shapes:
  assumes "LanguageModel d f h n e no p dev g = Inr (m, g')"
  shows "map name_shape (state_dict m) = arch_shapes (len d) h n e no"
  using assms
proof (elim LanguageModel_InrD)
  fix drop' enc g1 r g2 pr dec g3
  assume 2: "nn_Embedding (len d) e g = Inr (enc, g1)"
    and 3: "make_rnn e h n p g1 = Inr (r, g2)"
    and 4: "make_proj_decoder h no (len d) g2 = Inr (pr, dec, g3)"
    and 5: "m = \<lparr>dictionary = d, is_forward_lm = f, dropout = p, hidden_size = h, embedding_size = e,
          nlayers = n, drop = drop', encoder = fst (init_weights enc dec g3), rnn = r,
          hidden = None, nout = no, proj = pr, decoder = fst (snd (init_weights enc dec g3)),
          training = True, device = dev\<rparr>"
  note e = nn_Embedding_Inr [OF 2]
  note r = make_rnn_Inr [OF 3]
  show ?thesis
  proof (cases no)
    case None
    with 4 have "make_proj_decoder h None (len d) g2 = Inr (pr, dec, g3)" by simp
    from make_proj_decoder_None [OF this] e r None show ?thesis
      by (simp add: name_shape_state_dict arch_shapes_def 5 init_weights_dims decoder_in_def)
  next
    case (Some k)
    with 4 have "make_proj_decoder h (Some k) (len d) g2 = Inr (pr, dec, g3)" by simp
    from make_proj_decoder_Some [OF this] e r Some show ?thesis
      by (auto simp add: name_shape_state_dict arch_shapes_def 5 init_weights_dims decoder_in_def)
  qed
qed

lemma LanguageModel_nout:
  assumes "LanguageModel d f h n e no p dev g = Inr (m, g')"
  shows "case no of None \<Rightarrow> True | Some k \<Rightarrow> 0 \<le> k"
  using assms
proof (elim LanguageModel_InrD)
  fix pr dec g2 g3
  assume 4: "make_proj_decoder h no (len d) g2 = Inr (pr, dec, g3)"
  show ?thesis
  proof (cases no)
    case None then show ?thesis by simp
  next
    case (Some k)
    with 4 have "make_proj_decoder h (Some k) (len d) g2 = Inr (pr, dec, g3)" by simp
    from make_proj_decoder_Some [OF this] Some show ?thesis by simp
  qed
qed

lemma LanguageModel_again:
  assumes "LanguageModel d f h n e no p dev g = Inr (m, g')"
  shows "\<exists>m2 g2'. LanguageModel d f h n e no p dev2 g2 = Inr (m2, g2')
           \<and> map name_shape (state_dict m2) = map name_shape (state_dict m)"
proof -
  note L = LanguageModel_layers [OF assms] and N = LanguageModel_nout [OF assms]
  obtain m2 g2' where 2: "LanguageModel d f h n e no p dev2 g2 = Inr (m2, g2')"
    using LanguageModel_accepts [of h n e no p d f dev2 g2] L N by auto
  show ?thesis
    using 2 LanguageModel_param_shapes [OF 2] LanguageModel_param_shapes [OF assms] by simp
qed

lemma rebuild_complete:
  assumes "find (\<lambda>k. state k = None) config_keys = None"
  shows "rebuild w state =
     bind_err (construct_from w state) (\<lambda>mg.
     bind_err (getitem state ''state_dict'') (\<lambda>sd.
     bind_err (load_state_dict (fst mg) sd) (\<lambda>model1.
     Inr (model1\<lparr>training := False, device := flair_device w\<rparr>,
          w\<lparr>default_generator := snd mg\<rparr>))))"
proof -
  from assms obtain d f h n e no p where
    "state ''dictionary'' = Some d" "state ''is_forward_lm'' = Some f"
    "state ''hidden_size'' = Some h" "state ''nlayers'' = Some n"
    "state ''embedding_size'' = Some e" "state ''nout'' = Some no" "state ''dropout'' = Some p"
    by (auto simp: config_keys_def split: if_splits)
  then show ?thesis
    by (simp add: rebuild_def construct_from_def getitem_def get_or_none_def case_prod_unfold)
qed

lemma LanguageModel_of_error:
  assumes "LanguageModel_of d f h n e no p dev g = Inl err"
  shows "err = TypeError \<or> err = TorchError"
  using assms
  by (auto simp: LanguageModel_of_def split: pyval.splits dest: LanguageModel_error)

lemma load_state_dict_error:
  assumes "load_state_dict m v = Inl err"
  shows "err = TypeError \<or> err = TorchError"
  using assms by (auto simp: load_state_dict_def split: pyval.splits if_splits)

lemma rebuild_error:
  assumes "rebuild w state = Inl err"
  shows "err \<noteq> CorruptRecordError \<and> err \<noteq> ConfigurationError \<and> err \<noteq> ShapeMismatchError"
proof (cases "find (\<lambda>k. state k = None) config_keys")
  case (Some k)
  from rebuild_missing [OF this, of w] assms show ?thesis by auto
next
  case None
  from assms [unfolded rebuild_complete [OF None]] consider
      (a) "construct_from w state = Inl err"
    | (b) "getitem state ''state_dict'' = Inl err"
    | (c) m v where "load_state_dict m v = Inl err"
    by (elim bind_err_InlE) auto
  then show ?thesis
  proof cases
    case a
    then show ?thesis using LanguageModel_of_error unfolding construct_from_def by blast
  next
    case b
    then show ?thesis by (auto simp: getitem_def split: option.splits)
  next
    case c
    then show ?thesis using load_state_dict_error by blast
  qed
qed

lemma state_dict_assign_data:
  assumes "(k, t) \<in> set (state_dict (assign_params m f))" and "f k = Some s"
  shows "data t = data s"
  using assms
  by (cases "proj m")
     (auto simp: state_dict_def assign_params_def copy_from_def detach_def)

lemma LanguageModel_of_typed:
  "LanguageModel_of (PDictionary d) (PBool f) (PInt h) (PInt n) (PInt e) (nout_value no) (PFloat p) dev g
     = LanguageModel d f h n e no p dev g"
  by (cases no) (simp_all add: LanguageModel_of_def nout_value_def)

lemma state_dict_assign_keys:
  "map fst (state_dict (assign_params m f)) = map fst (state_dict m)"
  by (cases "proj m") (simp_all add: state_dict_def assign_params_def split_beta comp_def)

lemma state_dict_flags:
  "state_dict (m\<lparr>training := b, device := dv\<rparr>) = state_dict m"
  by (simp add: state_dict_def)

lemma loaded_weights:
  assumes "set (map name_shape sd) = set (map name_shape (state_dict m0))"
    and "(k, t) \<in> set (state_dict (assign_params m0 (map_of sd)))"
  shows "\<exists>s. map_of sd k = Some s \<and> data t = data s"
proof -
  have "k \<in> fst ` set (state_dict (assign_params m0 (map_of sd)))"
    using assms(2) by force
  then have "k \<in> set (map fst (state_dict m0))"
    using state_dict_assign_keys [of m0 "map_of sd"] by (metis set_map)
  then have "k \<in> fst ` set (map name_shape (state_dict m0))"
    by (force simp: name_shape_def)
  then have "k \<in> fst ` set (map name_shape sd)" using assms(1) by simp
  then have "k \<in> fst ` set sd" by (force simp: name_shape_def)
  then obtain s where s: "map_of sd k = Some s"
    by (metis domD dom_map_of_conv_image_fst)
  with state_dict_assign_data [OF assms(2) s] show ?thesis by simp
qed

lemma load_language_model_rebuild:
  "files w model_file = Some state \<Longrightarrow> load_language_model w model_file = rebuild w state"
  by (simp add: load_language_model_def torch_load_def)

lemma load_checkpoint_rebuild:
  "files w model_file = Some state \<Longrightarrow>
   load_checkpoint w model_file =
     bind_err (rebuild w state) (\<lambda>mw.
       Inr (\<lparr>model = fst mw, epoch = get_or_none state ''epoch'', split = get_or_none state ''split'',
             loss = get_or_none state ''loss'',
             optimizer_state_dict = get_or_none state ''optimizer_state_dict''\<rparr>, snd mw))"
  by (simp add: load_checkpoint_def torch_load_def Let_def case_prod_unfold)

lemma rebuild_of_model:
  assumes built: "LanguageModel (dictionary self) (is_forward_lm self) (hidden_size self) (nlayers self)
       (embedding_size self) (nout self) (dropout self) dev0 g0 = Inr (m0, g0')"
    and shapes: "map name_shape (state_dict self) = map name_shape (state_dict m0)"
    and st: "state ''dictionary'' = Some (PDictionary (dictionary self))"
      "state ''is_forward_lm'' = Some (PBool (is_forward_lm self))"
      "state ''hidden_size'' = Some (PInt (hidden_size self))"
      "state ''nlayers'' = Some (PInt (nlayers self))"
      "state ''embedding_size'' = Some (PInt (embedding_size self))"
      "state ''nout'' = Some (nout_value (nout self))"
      "state ''dropout'' = Some (PFloat (dropout self))"
      "state ''state_dict'' = Some (PStateDict (state_dict self))"
  shows "\<exists>m1 g1. LanguageModel (dictionary self) (is_forward_lm self) (hidden_size self) (nlayers self)
       (embedding_size self) (nout self) (dropout self) (flair_device w) (default_generator w) = Inr (m1, g1)
     \<and> rebuild w state =
         Inr ((assign_params m1 (map_of (state_dict self)))\<lparr>training := False, device := flair_device w\<rparr>,
              w\<lparr>default_generator := g1\<rparr>)"
proof -
  obtain m1 g1 where 1: "LanguageModel (dictionary self) (is_forward_lm self) (hidden_size self)
       (nlayers self) (embedding_size self) (nout self) (dropout self) (flair_device w)
       (default_generator w) = Inr (m1, g1)"
    and 2: "map name_shape (state_dict m1) = map name_shape (state_dict m0)"
    using LanguageModel_again [OF built, of "flair_device w" "default_generator w"] by auto
  have c: "find (\<lambda>k. state k = None) config_keys = None"
    using st by (simp add: config_keys_def)
  have "construct_from w state = Inr (m1, g1)"
    using st 1 by (simp add: construct_from_def get_or_none_def LanguageModel_of_typed)
  moreover have "map name_shape (state_dict self) = map name_shape (state_dict m1)"
    using 2 shapes by simp
  then have "set (map name_shape (state_dict self)) = set (map name_shape (state_dict m1))"
    by (rule arg_cong)
  ultimately have "rebuild w state =
         Inr ((assign_params m1 (map_of (state_dict self)))\<lparr>training := False, device := flair_device w\<rparr>,
              w\<lparr>default_generator := g1\<rparr>)"
    using st(8)
    by (simp add: rebuild_complete [OF c] getitem_def load_state_dict_def del: set_map)
  with 1 show ?thesis by blast
qed

lemma saved_state:
  "files (snd (save (self, w) file)) file = Some (map_of
              [(''state_dict'', PStateDict (state_dict self)),
               (''dictionary'', PDictionary (dictionary self)),
               (''is_forward_lm'', PBool (is_forward_lm self)),
               (''hidden_size'', PInt (hidden_size self)),
               (''nlayers'', PInt (nlayers self)),
               (''embedding_size'', PInt (embedding_size self)),
               (''nout'', nout_value (nout self)),
               (''dropout'', PFloat (dropout self))])"
  by (simp add: save_def Let_def)

lemma saved_checkpoint_state:
  "files (snd (save_checkpoint (self, w) file optimizer e s l)) file = Some (map_of
              [(''state_dict'', PStateDict (state_dict self)),
               (''dictionary'', PDictionary (dictionary self)),
               (''is_forward_lm'', PBool (is_forward_lm self)),
               (''hidden_size'', PInt (hidden_size self)),
               (''nlayers'', PInt (nlayers self)),
               (''embedding_size'', PInt (embedding_size self)),
               (''nout'', nout_value (nout self)),
               (''dropout'', PFloat (dropout self)),
               (''optimizer_state_dict'', optimizer),
               (''epoch'', PInt e),
               (''split'', PInt s),
               (''loss'', PFloat l)])"
  by (simp add: save_checkpoint_def Let_def)

lemma saved_world:
  "flair_device (snd (save (self, w) file)) = flair_device w"
  "default_generator (snd (save (self, w) file)) = default_generator w"
  "flair_device (snd (save_checkpoint (self, w) file optimizer e s l)) = flair_device w"
  "default_generator (snd (save_checkpoint (self, w) file optimizer e s l)) = default_generator w"
  by (simp_all add: save_def save_checkpoint_def Let_def)

lemma load_saved:
  assumes built: "LanguageModel (dictionary self) (is_forward_lm self) (hidden_size self) (nlayers self)
       (embedding_size self) (nout self) (dropout self) dev0 g0 = Inr (m0, g0')"
    and shapes: "map name_shape (state_dict self) = map name_shape (state_dict m0)"
  shows "\<exists>m w'. load_language_model (snd (save (self, w) file)) file = Inr (m, w')"
proof -
  let ?w = "snd (save (self, w) file)"
  note st = saved_state [of self w "file"]
  obtain m1 g1 where "rebuild ?w (the (files ?w file)) =
      Inr ((assign_params m1 (map_of (state_dict self)))\<lparr>training := False, device := flair_device ?w\<rparr>,
           ?w\<lparr>default_generator := g1\<rparr>)"
    using rebuild_of_model [OF built shapes, of "the (files ?w file)" ?w]
    unfolding st by auto
  then show ?thesis
    using load_language_model_rebuild [OF st] st by simp
qed

lemma load_saved_checkpoint:
  assumes built: "LanguageModel (dictionary self) (is_forward_lm self) (hidden_size self) (nlayers self)
       (embedding_size self) (nout self) (dropout self) dev0 g0 = Inr (m0, g0')"
    and shapes: "map name_shape (state_dict self) = map name_shape (state_dict m0)"
  shows "\<exists>ck w'. load_checkpoint (snd (save_checkpoint (self, w) file optimizer e s l)) file = Inr (ck, w')
           \<and> epoch ck = PInt e \<and> split ck = PInt s \<and> loss ck = PFloat l
           \<and> optimizer_state_dict ck = optimizer"
proof -
  let ?w = "snd (save_checkpoint (self, w) file optimizer e s l)"
  note st = saved_checkpoint_state [of self w "file" optimizer e s l]
  obtain m1 g1 where "rebuild ?w (the (files ?w file)) =
      Inr ((assign_params m1 (map_of (state_dict self)))\<lparr>training := False, device := flair_device ?w\<rparr>,
           ?w\<lparr>default_generator := g1\<rparr>)"
    using rebuild_of_model [OF built shapes, of "the (files ?w file)" ?w]
    unfolding st by auto
  then show ?thesis
    using load_checkpoint_rebuild [OF st] st by (simp add: get_or_none_def)
qed

text \<open>
  C6, as the code has it. On a readable record, \<^verbatim>\<open>load_language_model\<close> never
  fails with \<open>CorruptRecordError\<close>. If a configuration field is missing, it fails
  with \<open>KeyError\<close> for the first missing one in the order \<^verbatim>\<open>dictionary\<close>,
  \<^verbatim>\<open>is_forward_lm\<close>, \<^verbatim>\<open>hidden_size\<close>, \<^verbatim>\<open>nlayers\<close>, \<^verbatim>\<open>embedding_size\<close>, \<^verbatim>\<open>nout\<close>,
  \<^verbatim>\<open>dropout\<close>. If only \<^verbatim>\<open>state_dict\<close> is missing, it fails with \<open>KeyError\<close> for
  \<^verbatim>\<open>state_dict\<close> once the constructor has built the model. On a complete record
  whose configuration the constructor accepts and whose \<^verbatim>\<open>state_dict\<close> has the names
  and shapes of the model's parameters, it returns the freshly constructed model
  with every parameter holding the elements of its namesake in the record, in
  inference mode, on the process-wide device.
\<close>

theorem load_language_model_record:
  assumes "files w model_file = Some state"
  shows "(find (\<lambda>k. state k = None) config_keys = Some k \<longrightarrow>
            load_language_model w model_file = Inl (KeyError k))
       \<and> (find (\<lambda>k. state k = None) config_keys = None \<and> construct_from w state = Inr (m0, g1)
            \<and> state ''state_dict'' = None \<longrightarrow>
            load_language_model w model_file = Inl (KeyError ''state_dict''))
       \<and> (find (\<lambda>k. state k = None) config_keys = None \<and> construct_from w state = Inr (m0, g1)
            \<and> state ''state_dict'' = Some (PStateDict sd)
            \<and> set (map name_shape sd) = set (map name_shape (state_dict m0)) \<longrightarrow>
            (\<exists>m. load_language_model w model_file = Inr (m, w\<lparr>default_generator := g1\<rparr>)
               \<and> m = (assign_params m0 (map_of sd))\<lparr>training := False, device := flair_device w\<rparr>
               \<and> training m = False \<and> device m = flair_device w
               \<and> (\<forall>(k, t) \<in> set (state_dict m). \<exists>s. map_of sd k = Some s \<and> data t = data s)))
       \<and> load_language_model w model_file \<noteq> Inl CorruptRecordError"
proof -
  note eq = load_language_model_rebuild [OF assms]
  have a: "load_language_model w model_file = Inl (KeyError k)"
    if "find (\<lambda>k. state k = None) config_keys = Some k"
    using rebuild_missing [OF that, of w] eq by simp
  have b: "load_language_model w model_file = Inl (KeyError ''state_dict'')"
    if "find (\<lambda>k. state k = None) config_keys = None" "construct_from w state = Inr (m0, g1)"
       "state ''state_dict'' = None"
    using that eq by (simp add: rebuild_complete getitem_def)
  have c: "\<exists>m. load_language_model w model_file = Inr (m, w\<lparr>default_generator := g1\<rparr>)
               \<and> m = (assign_params m0 (map_of sd))\<lparr>training := False, device := flair_device w\<rparr>
               \<and> training m = False \<and> device m = flair_device w
               \<and> (\<forall>(k, t) \<in> set (state_dict m). \<exists>s. map_of sd k = Some s \<and> data t = data s)"
    if "find (\<lambda>k. state k = None) config_keys = None" "construct_from w state = Inr (m0, g1)"
       "state ''state_dict'' = Some (PStateDict sd)"
       "set (map name_shape sd) = set (map name_shape (state_dict m0))"
  proof -
    have "load_language_model w model_file =
        Inr ((assign_params m0 (map_of sd))\<lparr>training := False, device := flair_device w\<rparr>,
             w\<lparr>default_generator := g1\<rparr>)"
      using that eq by (simp add: rebuild_complete getitem_def load_state_dict_def del: set_map)
    moreover have "\<forall>(k, t) \<in> set (state_dict (assign_params m0 (map_of sd))).
        \<exists>s. map_of sd k = Some s \<and> data t = data s"
      using loaded_weights [OF that(4)] by blast
    ultimately show ?thesis by (simp add: state_dict_flags)
  qed
  have d: "load_language_model w model_file \<noteq> Inl CorruptRecordError"
    using rebuild_error [of w state CorruptRecordError] eq by auto
  from a b c d show ?thesis by blast
qed

theorem load_language_model_record_witness:
  "load_language_model (demo_world\<lparr>files := [''lm.pt'' \<mapsto> record_without_nout]\<rparr>) ''lm.pt''
     = Inl (KeyError ''nout'')
   \<and> (\<exists>m. load_language_model (snd (save (demo_model, demo_world) ''lm.pt'')) ''lm.pt''
            = Inr (m, snd (save (demo_model, demo_world) ''lm.pt'')
                     \<lparr>default_generator :=
                        generator_after (LanguageModel demo_dictionary True 2 1 3 None (1 / 2) CPU demo_generator)\<rparr>)
          \<and> training m = False \<and> device m = CPU)"
proof -
  let ?w1 = "demo_world\<lparr>files := [''lm.pt'' \<mapsto> record_without_nout]\<rparr>"
  have f1: "files ?w1 ''lm.pt'' = Some record_without_nout" by simp
  have k1: "find (\<lambda>k. record_without_nout k = None) config_keys = Some ''nout''"
    by (simp add: config_keys_def record_without_nout_def)
  note A = load_language_model_record [OF f1, of "''nout''", THEN conjunct1, THEN mp, OF k1]
  let ?w2 = "snd (save (demo_model, demo_world) ''lm.pt'')"
  let ?g = "generator_after (LanguageModel demo_dictionary True 2 1 3 None (1 / 2) CPU demo_generator)"
  note F = LanguageModel_fields [OF demo_model_built]
  note st = saved_state [of demo_model demo_world "''lm.pt''"]
  let ?st = "the (files ?w2 ''lm.pt'')"
  have f2: "files ?w2 ''lm.pt'' = Some ?st" using st by simp
  have k2: "find (\<lambda>k. ?st k = None) config_keys = None"
    unfolding st by (simp add: config_keys_def)
  have c2: "construct_from ?w2 ?st = Inr (demo_model, ?g)"
    unfolding st using demo_model_built
    by (simp add: F construct_from_def get_or_none_def saved_world demo_world_def nout_value_def
          LanguageModel_of_def)
  have s2: "?st ''state_dict'' = Some (PStateDict (state_dict demo_model))"
    unfolding st by simp
  have "\<exists>m. load_language_model ?w2 ''lm.pt'' = Inr (m, ?w2\<lparr>default_generator := ?g\<rparr>)
               \<and> m = (assign_params demo_model (map_of (state_dict demo_model)))
                     \<lparr>training := False, device := flair_device ?w2\<rparr>
               \<and> training m = False \<and> device m = flair_device ?w2
               \<and> (\<forall>(k, t) \<in> set (state_dict m).
                     \<exists>s. map_of (state_dict demo_model) k = Some s \<and> data t = data s)"
    by (rule load_language_model_record [OF f2, THEN conjunct2, THEN conjunct2, THEN conjunct1, THEN mp])
       (simp add: k2 c2 s2)
  then have B: "\<exists>m. load_language_model ?w2 ''lm.pt'' = Inr (m, ?w2\<lparr>default_generator := ?g\<rparr>)
      \<and> training m = False \<and> device m = CPU"
    by (auto simp: saved_world demo_world_def)
  from A B show ?thesis by blast
qed

text \<open>
  C6 as stated fails: on a record that lacks \<^verbatim>\<open>nout\<close> the error is \<open>KeyError\<close>, not
  \<open>CorruptRecordError\<close>.
\<close>

theorem load_language_model_missing_field_is_key_error:
  "load_language_model (demo_world\<lparr>files := [''lm.pt'' \<mapsto> record_without_nout]\<rparr>) ''lm.pt''
     = Inl (KeyError ''nout'')"
proof -
  have "find (\<lambda>k. record_without_nout k = None) config_keys = Some ''nout''"
    by (simp add: config_keys_def record_without_nout_def)
  from rebuild_missing [OF this]
  show ?thesis by (simp add: load_language_model_def torch_load_def)
qed

text \<open>
  C7. For a model with the parameters (by name and shape) of a model constructed
  from its configuration, \<^verbatim>\<open>save_checkpoint\<close> followed by \<^verbatim>\<open>load_checkpoint\<close> on
  the same file succeeds and returns the epoch, split and loss that were saved.
  And whenever \<^verbatim>\<open>load_language_model\<close> succeeds on a file, \<^verbatim>\<open>load_checkpoint\<close>
  succeeds on it with the same model, and each of \<^verbatim>\<open>epoch\<close>, \<^verbatim>\<open>split\<close>, \<^verbatim>\<open>loss\<close> and
  \<^verbatim>\<open>optimizer_state_dict\<close> is the record's value where present and \<^verbatim>\<open>None\<close> where
  absent.
\<close>

theorem checkpoint_round_trip:
  "(LanguageModel (dictionary self) (is_forward_lm self) (hidden_size self) (nlayers self)
       (embedding_size self) (nout self) (dropout self) dev0 g0 = Inr (m0, g0')
     \<and> map name_shape (state_dict self) = map name_shape (state_dict m0) \<longrightarrow>
     (\<exists>ck w'. load_checkpoint (snd (save_checkpoint (self, w) path optimizer e s l)) path = Inr (ck, w')
        \<and> epoch ck = PInt e \<and> split ck = PInt s \<and> loss ck = PFloat l))
   \<and> (files w path = Some state \<and> load_language_model w path = Inr (m, w1) \<longrightarrow>
        load_checkpoint w path =
          Inr (\<lparr>model = m,
                epoch = (case state ''epoch'' of None \<Rightarrow> PNone | Some v \<Rightarrow> v),
                split = (case state ''split'' of None \<Rightarrow> PNone | Some v \<Rightarrow> v),
                loss = (case state ''loss'' of None \<Rightarrow> PNone | Some v \<Rightarrow> v),
                optimizer_state_dict =
                  (case state ''optimizer_state_dict'' of None \<Rightarrow> PNone | Some v \<Rightarrow> v)\<rparr>, w1))"
proof -
  have a: "\<exists>ck w'. load_checkpoint (snd (save_checkpoint (self, w) path optimizer e s l)) path = Inr (ck, w')
        \<and> epoch ck = PInt e \<and> split ck = PInt s \<and> loss ck = PFloat l"
    if "LanguageModel (dictionary self) (is_forward_lm self) (hidden_size self) (nlayers self)
       (embedding_size self) (nout self) (dropout self) dev0 g0 = Inr (m0, g0')"
      "map name_shape (state_dict self) = map name_shape (state_dict m0)"
    using load_saved_checkpoint [OF that, of w path optimizer e s l] by blast
  have b: "load_checkpoint w path =
          Inr (\<lparr>model = m,
                epoch = (case state ''epoch'' of None \<Rightarrow> PNone | Some v \<Rightarrow> v),
                split = (case state ''split'' of None \<Rightarrow> PNone | Some v \<Rightarrow> v),
                loss = (case state ''loss'' of None \<Rightarrow> PNone | Some v \<Rightarrow> v),
                optimizer_state_dict =
                  (case state ''optimizer_state_dict'' of None \<Rightarrow> PNone | Some v \<Rightarrow> v)\<rparr>, w1)"
    if "files w path = Some state" "load_language_model w path = Inr (m, w1)"
    using that load_language_model_rebuild [OF that(1)] load_checkpoint_rebuild [OF that(1)]
    by (simp add: get_or_none_def)
  from a b show ?thesis by blast
qed

theorem checkpoint_round_trip_witness:
  "(\<exists>ck w'. load_checkpoint (snd (save_checkpoint (demo_model, demo_world) ''ck.pt'' (PObject ''adam'') 4 7 (3 / 2)))
               ''ck.pt'' = Inr (ck, w')
      \<and> epoch ck = PInt 4 \<and> split ck = PInt 7 \<and> loss ck = PFloat (3 / 2))
   \<and> (\<exists>ck w'. load_checkpoint (snd (save (demo_model, demo_world) ''lm.pt'')) ''lm.pt'' = Inr (ck, w')
      \<and> epoch ck = PNone \<and> split ck = PNone \<and> loss ck = PNone \<and> optimizer_state_dict ck = PNone)"
proof -
  note F = LanguageModel_fields [OF demo_model_built]
  have built: "LanguageModel (dictionary demo_model) (is_forward_lm demo_model) (hidden_size demo_model)
      (nlayers demo_model) (embedding_size demo_model) (nout demo_model) (dropout demo_model) CPU
      demo_generator = Inr (demo_model,
        generator_after (LanguageModel demo_dictionary True 2 1 3 None (1 / 2) CPU demo_generator))"
    using demo_model_built by (simp add: F)
  have A: "\<exists>ck w'. load_checkpoint (snd (save_checkpoint (demo_model, demo_world) ''ck.pt'' (PObject ''adam'') 4 7 (3 / 2)))
               ''ck.pt'' = Inr (ck, w')
      \<and> epoch ck = PInt 4 \<and> split ck = PInt 7 \<and> loss ck = PFloat (3 / 2)"
    by (rule checkpoint_round_trip [THEN conjunct1, THEN mp, OF conjI [OF built refl]])
  let ?w = "snd (save (demo_model, demo_world) ''lm.pt'')"
  note st = saved_state [of demo_model demo_world "''lm.pt''"]
  obtain m w1 where L: "load_language_model ?w ''lm.pt'' = Inr (m, w1)"
    using load_saved [OF built refl, of demo_world "''lm.pt''"] by blast
  from checkpoint_round_trip [THEN conjunct2, THEN mp, OF conjI, OF st L]
  have "\<exists>ck w'. load_checkpoint ?w ''lm.pt'' = Inr (ck, w')
      \<and> epoch ck = PNone \<and> split ck = PNone \<and> loss ck = PNone \<and> optimizer_state_dict ck = PNone"
    by simp
  with A show ?thesis by blast
qed

text \<open>
  C10. \<^verbatim>\<open>save\<close> and \<^verbatim>\<open>save_checkpoint\<close> return the model they were called on: every
  weight tensor, every configuration field and the stored \<^verbatim>\<open>hidden\<close> attribute are
  as before the call.
\<close>

theorem save_leaves_model_unchanged:
  "fst (save (self, w) path) = self
   \<and> fst (save_checkpoint (self, w) path optimizer e s l) = self"
  by (simp add: save_def save_checkpoint_def Let_def)

section \<open>Weight initialisation\<close>

lemma sample_variate: "variate (snd (sample d n g)) = variate g"
  by (simp add: sample_def)

lemma filled_facts:
  "filled d s g = (t, g') \<Longrightarrow>
     variate g' = variate g \<and> shape t = s \<and> data t = map (variate g d) [pos g ..< pos g + numel s]"
  by (auto simp: filled_def sample_def)

lemma tensor_uniform_facts:
  "tensor_uniform lo hi t g = (t', g') \<Longrightarrow>
     variate g' = variate g \<and> shape t' = shape t
     \<and> data t' = map (variate g (Uniform lo hi)) [pos g ..< pos g + numel (shape t)]"
  by (auto simp: tensor_uniform_def sample_def)

lemma nn_Embedding_variate: "nn_Embedding n d g = Inr (enc, g') \<Longrightarrow> variate g' = variate g"
  by (auto simp: nn_Embedding_def split: if_splits prod.splits dest: filled_facts)

lemma nn_Linear_variate: "nn_Linear i k g = Inr (l, g') \<Longrightarrow> variate g' = variate g"
  by (auto simp: nn_Linear_def split: if_splits prod.splits dest!: filled_facts)

lemma init_all_variate: "init_all d ps g = (ts, g') \<Longrightarrow> variate g' = variate g"
  by (induction ps arbitrary: g ts g') (auto split: prod.splits dest!: filled_facts)

lemma make_rnn_variate: "make_rnn i h n p g = Inr (r, g') \<Longrightarrow> variate g' = variate g"
  by (auto simp: make_rnn_def nn_LSTM_def split: if_splits prod.splits dest: init_all_variate)

lemma initialize_facts:
  assumes "initialize t g = Inr (t', g')" "shape t = [a, b]"
  shows "variate g' = variate g
     \<and> data t' = map (variate g (Uniform (- sqrt (3 / real (a + b))) (sqrt (3 / real (a + b)))))
                    [pos g ..< pos g + a * b]"
  using assms
  by (auto simp: initialize_def Let_def numel_def split: if_splits dest!: tensor_uniform_facts)

lemma make_proj_decoder_None_variate:
  assumes "make_proj_decoder h None N g = Inr (pr, dec, g')"
  shows "variate g' = variate g"
proof -
  from assms obtain dg where 1: "nn_Linear h (int N) g = Inr dg" and 2: "g' = snd dg"
    by (auto simp: make_proj_decoder_def elim!: bind_err_InrE)
  from nn_Linear_variate [of h "int N" g "fst dg" "snd dg"] 1 2 show ?thesis by simp
qed

lemma make_proj_decoder_Some_data:
  assumes "make_proj_decoder h (Some k) N g = Inr (pr, dec, g')"
  shows "variate g' = variate g
     \<and> (\<exists>q prj. pr = Some prj
          \<and> data (lin_weight prj) =
              map (variate g (Uniform (- sqrt (3 / real (nat h + nat k))) (sqrt (3 / real (nat h + nat k)))))
                [q ..< q + nat k * nat h])"
proof -
  from assms obtain pg wg dg where 1: "nn_Linear h k g = Inr pg"
    and 2: "initialize (lin_weight (fst pg)) (snd pg) = Inr wg"
    and 3: "nn_Linear k (int N) (snd wg) = Inr dg"
    and 4: "pr = Some ((fst pg)\<lparr>lin_weight := fst wg\<rparr>)" "g' = snd dg"
    by (auto simp: make_proj_decoder_def elim!: bind_err_InrE)
  have sh: "shape (lin_weight (fst pg)) = [nat k, nat h]"
    using nn_Linear_Inr [of h k g "fst pg" "snd pg"] 1 by simp
  have v1: "variate (snd pg) = variate g"
    using nn_Linear_variate [of h k g "fst pg" "snd pg"] 1 by simp
  have i: "variate (snd wg) = variate (snd pg)
     \<and> data (fst wg) = map (variate (snd pg) (Uniform (- sqrt (3 / real (nat k + nat h))) (sqrt (3 / real (nat k + nat h)))))
                    [pos (snd pg) ..< pos (snd pg) + nat k * nat h]"
    using initialize_facts [of "lin_weight (fst pg)" "snd pg" "fst wg" "snd wg" "nat k" "nat h"] 2 sh
    by simp
  have v3: "variate (snd dg) = variate (snd wg)"
    using nn_Linear_variate [of k "int N" "snd wg" "fst dg" "snd dg"] 3 by simp
  have d: "data (lin_weight ((fst pg)\<lparr>lin_weight := fst wg\<rparr>)) =
      map (variate g (Uniform (- sqrt (3 / real (nat h + nat k))) (sqrt (3 / real (nat h + nat k)))))
        [pos (snd pg) ..< pos (snd pg) + nat k * nat h]"
    using i v1 by (simp add: add.commute)
  have v: "variate g' = variate g" using 4(2) v1 v3 i by simp
  show ?thesis using v 4(1) d by blast
qed

lemma init_weights_data:
  "data (emb_weight (fst (init_weights enc dec g))) =
     map (variate g (Uniform (- (1 / 10)) (1 / 10))) [pos g ..< pos g + numel (shape (emb_weight enc))]
   \<and> data (lin_bias (fst (snd (init_weights enc dec g)))) = replicate (numel (shape (lin_bias dec))) 0
   \<and> data (lin_weight (fst (snd (init_weights enc dec g)))) =
     map (variate g (Uniform (- (1 / 10)) (1 / 10)))
       [pos g + numel (shape (emb_weight enc))
          ..< pos g + numel (shape (emb_weight enc)) + numel (shape (lin_weight dec))]"
  by (simp add: init_weights_def tensor_uniform_def tensor_fill_def sample_def Let_def)

text \<open>
  C8. In the model the constructor returns, the elements of the encoder's
  embedding weight are draws of the library's generator from \<open>U(-0.1, 0.1)\<close>, the
  decoder's bias is zero throughout, the elements of the decoder's weight are
  draws from \<open>U(-0.1, 0.1)\<close>, and where a projection is configured the elements of
  its weight are draws from \<open>U(-s, s)\<close> with \<open>s = sqrt (3 / (in_width + out_width))\<close>,
  the widths being the hidden and the projection width. The model is a function
  of the generator's state: a generator in the same state (the same seed, the same
  number of draws made) yields the same model.
\<close>

theorem init_weights_policy:
  assumes "LanguageModel d f h n e no p dev g = Inr (m, g')"
  shows "(\<exists>q. data (emb_weight (encoder m)) =
             map (variate g (Uniform (- (1 / 10)) (1 / 10))) [q ..< q + len d * nat e])
       \<and> data (lin_bias (decoder m)) = replicate (len d) 0
       \<and> (\<exists>q. data (lin_weight (decoder m)) =
             map (variate g (Uniform (- (1 / 10)) (1 / 10))) [q ..< q + len d * decoder_in h no])
       \<and> (no = Some k \<longrightarrow>
            (\<exists>q prj. proj m = Some prj
               \<and> data (lin_weight prj) =
                   map (variate g (Uniform (- sqrt (3 / real (nat h + nat k)))
                                          (sqrt (3 / real (nat h + nat k)))))
                     [q ..< q + nat k * nat h]))
       \<and> (variate g2 = variate g \<and> pos g2 = pos g \<longrightarrow>
            LanguageModel d f h n e no p dev g2 = Inr (m, g'))"
  using assms
proof (elim LanguageModel_InrD)
  fix drop' enc g1 r g2' pr dec g3
  assume 2: "nn_Embedding (len d) e g = Inr (enc, g1)"
    and 3: "make_rnn e h n p g1 = Inr (r, g2')"
    and 4: "make_proj_decoder h no (len d) g2' = Inr (pr, dec, g3)"
    and 5: "m = \<lparr>dictionary = d, is_forward_lm = f, dropout = p, hidden_size = h, embedding_size = e,
          nlayers = n, drop = drop', encoder = fst (init_weights enc dec g3), rnn = r,
          hidden = None, nout = no, proj = pr, decoder = fst (snd (init_weights enc dec g3)),
          training = True, device = dev\<rparr>"
  have v12: "variate g2' = variate g"
    using nn_Embedding_variate [OF 2] make_rnn_variate [OF 3] by simp
  note es = nn_Embedding_Inr [OF 2]
  note iw = init_weights_data [of enc dec g3]
  have dims: "shape (lin_weight dec) = [len d, decoder_in h no] \<and> shape (lin_bias dec) = [len d]
      \<and> variate g3 = variate g
      \<and> (no = Some k \<longrightarrow>
            (\<exists>q prj. pr = Some prj
               \<and> data (lin_weight prj) =
                   map (variate g (Uniform (- sqrt (3 / real (nat h + nat k)))
                                          (sqrt (3 / real (nat h + nat k)))))
                     [q ..< q + nat k * nat h]))"
  proof (cases no)
    case None
    with 4 have a: "make_proj_decoder h None (len d) g2' = Inr (pr, dec, g3)" by simp
    from make_proj_decoder_None [OF a] make_proj_decoder_None_variate [OF a] None v12
    show ?thesis by (simp add: decoder_in_def)
  next
    case (Some k')
    with 4 have a: "make_proj_decoder h (Some k') (len d) g2' = Inr (pr, dec, g3)" by simp
    from make_proj_decoder_Some [OF a] make_proj_decoder_Some_data [OF a] Some v12
    show ?thesis by (auto simp: decoder_in_def)
  qed
  have enc: "\<exists>q. data (emb_weight (encoder m)) =
             map (variate g (Uniform (- (1 / 10)) (1 / 10))) [q ..< q + len d * nat e]"
    using iw es dims by (auto simp: 5 numel_def)
  have bias: "data (lin_bias (decoder m)) = replicate (len d) 0"
    using iw dims by (simp add: 5 numel_def)
  have dw: "\<exists>q. data (lin_weight (decoder m)) =
             map (variate g (Uniform (- (1 / 10)) (1 / 10))) [q ..< q + len d * decoder_in h no]"
    using iw dims by (auto simp: 5 numel_def)
  have prj: "no = Some k \<longrightarrow>
            (\<exists>q prj. proj m = Some prj
               \<and> data (lin_weight prj) =
                   map (variate g (Uniform (- sqrt (3 / real (nat h + nat k)))
                                          (sqrt (3 / real (nat h + nat k)))))
                     [q ..< q + nat k * nat h])"
    using dims by (simp add: 5)
  have rep: "variate g2 = variate g \<and> pos g2 = pos g \<longrightarrow>
            LanguageModel d f h n e no p dev g2 = Inr (m, g')"
  proof
    assume "variate g2 = variate g \<and> pos g2 = pos g"
    then have "g2 = g" by (cases g, cases g2) simp
    with assms show "LanguageModel d f h n e no p dev g2 = Inr (m, g')" by simp
  qed
  from enc bias dw prj rep show ?thesis by blast
qed

theorem init_weights_policy_witness:
  "(\<exists>q. data (emb_weight (encoder projected_model)) =
         map (variate demo_generator (Uniform (- (1 / 10)) (1 / 10))) [q ..< q + len demo_dictionary * nat 3])
   \<and> data (lin_bias (decoder projected_model)) = replicate (len demo_dictionary) 0
   \<and> (\<exists>q. data (lin_weight (decoder projected_model)) =
         map (variate demo_generator (Uniform (- (1 / 10)) (1 / 10)))
           [q ..< q + len demo_dictionary * decoder_in 2 (Some 1)])
   \<and> (\<exists>q prj. proj projected_model = Some prj
         \<and> data (lin_weight prj) =
             map (variate demo_generator (Uniform (- sqrt (3 / real (nat 2 + nat 1)))
                                                 (sqrt (3 / real (nat 2 + nat 1)))))
               [q ..< q + nat 1 * nat 2])
   \<and> LanguageModel demo_dictionary True 2 1 3 (Some 1) (1 / 2) CPU demo_generator =
       Inr (projected_model,
            generator_after (LanguageModel demo_dictionary True 2 1 3 (Some 1) (1 / 2) CPU demo_generator))"
  using init_weights_policy [OF projected_model_built, of 1 demo_generator]
  by blast

end
